theory Spec2Isabelle
  imports Complex_Main "HOL-Library.Sublist" "HOL-Library.AList"
begin

section \<open>Numbers, strings and geometry\<close>

text \<open>
  The program is the React component \<^verbatim>\<open>src/App.tsx\<close> of the map quiz (the variant
  with scale range \<open>[1, 20]\<close> and a CSS transform; the second variant, which rewrites the
  view box and has 1.5 as smallest scale, shares the projector, the loader's two tests and
  the quiz logic). Its values are modelled as follows.

  \<^item> A JavaScript \<^verbatim>\<open>number\<close> is modelled twice, and the data types take the number type
    as a parameter. In the exact model it is a \<^typ>\<open>real\<close>: arithmetic is exact, and the
    values \<^verbatim>\<open>NaN\<close> and \<^verbatim>\<open>Infinity\<close> do not exist; \<^verbatim>\<open>Math.hypot\<close> is the root of the sum of
    squares and \<^verbatim>\<open>Math.exp\<close> the real exponential. This model carries the quiz logic and
    the pointer bookkeeping, where numbers are only stored and compared on small values,
    and the algebraic identity of the zoom step, which is a statement about exact
    arithmetic. In the double model (section \<open>Double-precision arithmetic\<close>) a number is
    an IEEE 754 binary64 value, with rounding to nearest, overflow, signed zero, \<^verbatim>\<open>NaN\<close>
    and the infinities. Whatever depends on rounding or on the special values is stated
    there: the range of the scale, the monotonicity of the projector and the labels of
    the fallback hint.
  \<^item> A JavaScript string is the list of its UTF-16 code units (\<^typ>\<open>nat list\<close>); the
    Japanese literals of the source are written as code unit lists.
  \<^item> A GeoJSON position \<^verbatim>\<open>[lon, lat, ...]\<close> is the pair of its first two components,
    the only ones the source reads.
  \<^item> An optional field (\<^verbatim>\<open>undefined\<close>, \<^verbatim>\<open>null\<close>) is an \<^typ>\<open>'a option\<close>.
\<close>

type_synonym jsstring = "nat list"

definition ascii :: "string \<Rightarrow> jsstring" where
  "ascii s = map of_char s"

type_synonym position = "real \<times> real"

datatype 'n Geometry =
    Polygon "('n \<times> 'n) list list"
  | MultiPolygon "('n \<times> 'n) list list list"

fun extractPoints :: "'n Geometry \<Rightarrow> ('n \<times> 'n) list" where
  "extractPoints (Polygon coordinates) = concat coordinates"
| "extractPoints (MultiPolygon coordinates) = concat (map concat coordinates)"

subsection \<open>Projector\<close>

definition MAP_WIDTH :: real where
  "MAP_WIDTH = 800"

definition MAP_HEIGHT :: real where
  "MAP_HEIGHT = 400"

definition project :: "position \<Rightarrow> real \<times> real" where
  "project coords =
     (let lon = fst coords;
          lat = snd coords;
          x = (lon + 180) * (MAP_WIDTH / 360);
          y = (90 - lat) * (MAP_HEIGHT / 180)
      in (x, y))"

record 'n Bounds =
  minX :: 'n
  maxX :: 'n
  minY :: 'n
  maxY :: 'n

text \<open>
  \<open>getProjectedBounds\<close> starts its four accumulators at \<^verbatim>\<open>Infinity\<close> and \<^verbatim>\<open>-Infinity\<close>
  and folds \<^verbatim>\<open>Math.min\<close> and \<^verbatim>\<open>Math.max\<close> over the points. The empty point list returns
  \<^verbatim>\<open>null\<close> before the loop; for a non-empty one the first iteration replaces every
  infinite accumulator by the first point's coordinate, which is where the model starts.
\<close>

definition bounds_step :: "position \<Rightarrow> real Bounds \<Rightarrow> real Bounds" where
  "bounds_step p b =
     (let (x, y) = project (fst p, snd p)
      in \<lparr>minX = min (minX b) x, maxX = max (maxX b) x,
          minY = min (minY b) y, maxY = max (maxY b) y\<rparr>)"

definition getProjectedBounds :: "real Geometry \<Rightarrow> real Bounds option" where
  "getProjectedBounds g =
     (case extractPoints g of
        [] \<Rightarrow> None
      | p # ps \<Rightarrow>
          (let (x, y) = project (fst p, snd p)
           in Some (fold bounds_step ps \<lparr>minX = x, maxX = x, minY = y, maxY = y\<rparr>)))"

section \<open>Regions, hints and the quiz round\<close>

record GeoProperties =
  ADMIN :: "jsstring option"
  name :: "jsstring option"
  ISO_A3 :: "jsstring option"
  ISO_A2 :: "jsstring option"
  ISO3166_1_Alpha_2 :: "jsstring option"
  ISO3166_1_Alpha_3 :: "jsstring option"

record 'n GeoFeature =
  geometry :: "'n Geometry"
  properties :: GeoProperties

text \<open>
  A raw feature of the fetched document: its geometry may be missing or of a kind other
  than the two polygonal ones, and its properties may be missing.
\<close>

datatype 'n RawGeometry =
    RawPolygon "('n \<times> 'n) list list"
  | RawMultiPolygon "('n \<times> 'n) list list list"
  | RawOther jsstring

record 'n RawGeoFeature =
  raw_geometry :: "'n RawGeometry option"
  raw_properties :: "GeoProperties option"

record Hint =
  main_hint :: jsstring
  summary :: jsstring

record Feedback =
  isCorrect :: bool
  message :: jsstring

text \<open>
  Truthiness of an optional string: \<^verbatim>\<open>undefined\<close> and the empty string are falsy.
  \<open>a || b\<close> on optional strings is \<open>js_or\<close>; with a string literal as last operand it is
  \<open>or_default\<close>.
\<close>

fun truthy :: "jsstring option \<Rightarrow> bool" where
  "truthy None = False"
| "truthy (Some s) = (s \<noteq> [])"

definition js_or :: "jsstring option \<Rightarrow> jsstring option \<Rightarrow> jsstring option" where
  "js_or a b = (if truthy a then a else b)"

fun or_default :: "jsstring option \<Rightarrow> jsstring \<Rightarrow> jsstring" where
  "or_default (Some (c # cs)) d = c # cs"
| "or_default _ d = d"

fun isGeometrySupported :: "'n RawGeometry option \<Rightarrow> bool" where
  "isGeometrySupported None = False"
| "isGeometrySupported (Some (RawPolygon cs)) = True"
| "isGeometrySupported (Some (RawMultiPolygon cs)) = True"
| "isGeometrySupported (Some (RawOther kind)) = False"

fun hasName :: "GeoProperties option \<Rightarrow> bool" where
  "hasName None = False"
| "hasName (Some p) = truthy (js_or (ADMIN p) (name p))"

definition getEnglishName :: "GeoProperties \<Rightarrow> jsstring" where
  "getEnglishName p = or_default (ADMIN p) (or_default (name p) (ascii ''Unknown''))"

definition getCountryId :: "GeoProperties \<Rightarrow> jsstring" where
  "getCountryId p =
     or_default (ISO_A3 p) (or_default (ISO3166_1_Alpha_3 p)
       (or_default (name p) (or_default (ADMIN p) (ascii ''unknown''))))"

text \<open>
  The platform functions \<open>getJapaneseName\<close> calls: \<^verbatim>\<open>String.prototype.toUpperCase\<close> and
  \<^verbatim>\<open>Intl.DisplayNames\<close>, which may be absent, and whose \<^verbatim>\<open>of\<close> may return \<^verbatim>\<open>undefined\<close>.
\<close>

record Platform =
  toUpperCase :: "jsstring \<Rightarrow> jsstring"
  displayNames :: "(jsstring \<Rightarrow> jsstring option) option"

text \<open>The regular expression \<^verbatim>\<open>/^[A-Z]{2}$/\<close>.\<close>

definition isRegionCode :: "jsstring \<Rightarrow> bool" where
  "isRegionCode s = (length s = 2 \<and> (\<forall>c \<in> set s. 65 \<le> c \<and> c \<le> 90))"

definition getJapaneseName :: "Platform \<Rightarrow> GeoProperties \<Rightarrow> jsstring" where
  "getJapaneseName pf p =
     (let rawRegion = js_or (ISO3166_1_Alpha_2 p) (ISO_A2 p);
          regionCode = map_option (toUpperCase pf) rawRegion
      in case (regionCode, displayNames pf) of
           (Some code, Some display_of) \<Rightarrow>
             if code \<noteq> [] \<and> isRegionCode code \<and> truthy (display_of code)
             then or_default (display_of code) (getEnglishName p)
             else getEnglishName p
         | _ \<Rightarrow> getEnglishName p)"

subsection \<open>Geometry loader\<close>

text \<open>
  The \<^verbatim>\<open>map\<close> and \<^verbatim>\<open>filter\<close> of \<open>fetchGeoData\<close>: a raw feature becomes a feature when
  its geometry is supported and it has a name, and is dropped otherwise.
\<close>

definition narrow :: "'n RawGeoFeature \<Rightarrow> 'n GeoFeature option" where
  "narrow raw =
     (if \<not> isGeometrySupported (raw_geometry raw) \<or> \<not> hasName (raw_properties raw) then None
      else case (raw_geometry raw, raw_properties raw) of
             (Some (RawPolygon cs), Some p) \<Rightarrow> Some \<lparr>geometry = Polygon cs, properties = p\<rparr>
           | (Some (RawMultiPolygon cs), Some p) \<Rightarrow>
               Some \<lparr>geometry = MultiPolygon cs, properties = p\<rparr>
           | _ \<Rightarrow> None)"

definition loadFeatures :: "'n RawGeoFeature list \<Rightarrow> 'n GeoFeature list" where
  "loadFeatures features = List.map_filter narrow features"

subsection \<open>Fallback hint and the coordinate filter\<close>

definition latNorth :: jsstring where "latNorth = [0x5317, 0x534A, 0x7403]"
definition latSouth :: jsstring where "latSouth = [0x5357, 0x534A, 0x7403]"
definition lonEast :: jsstring where "lonEast = [0x6771, 0x534A, 0x7403]"
definition lonWest :: jsstring where "lonWest = [0x897F, 0x534A, 0x7403]"
definition sizeSmall :: jsstring where "sizeSmall = [0x5C0F, 0x3055, 0x3081]"
definition sizeMedium :: jsstring where "sizeMedium = [0x4E2D, 0x898F, 0x6A21]"
definition sizeLarge :: jsstring where "sizeLarge = [0x5E83, 0x3044]"
definition shapeFragmented :: jsstring where
  "shapeFragmented = [0x5CF6, 0x304C, 0x70B9, 0x5728, 0x3059, 0x308B, 0x56FD]"
definition shapeContiguous :: jsstring where
  "shapeContiguous =
     [0x3072, 0x3068, 0x7D9A, 0x304D, 0x306E, 0x9678, 0x5730, 0x3092, 0x6301, 0x3064, 0x56FD]"

text \<open>The two templates of the hint, given the name and the four labels.\<close>

definition summaryText :: "jsstring \<Rightarrow> jsstring \<Rightarrow> jsstring \<Rightarrow> jsstring \<Rightarrow> jsstring" where
  "summaryText nm latLabel lonLabel sizeLabel =
     nm @ ascii '' / '' @ latLabel @ [0x30FB] @ lonLabel @ ascii '' / '' @ sizeLabel"

definition mainHintText ::
  "jsstring \<Rightarrow> jsstring \<Rightarrow> jsstring \<Rightarrow> jsstring \<Rightarrow> jsstring \<Rightarrow> jsstring" where
  "mainHintText nm latLabel lonLabel shapeLabel sizeLabel =
     nm @ [0x306F] @ latLabel @ [0x30FB] @ lonLabel @ [0x306B, 0x4F4D, 0x7F6E, 0x3057, 0x3001]
       @ shapeLabel @ [0x3067, 0x3001] @ sizeLabel @ [0x306A, 0x56FD, 0x3067, 0x3059, 0x3002]"

definition pendingHint :: "jsstring \<Rightarrow> Hint" where
  "pendingHint nm =
     \<lparr>main_hint = nm @ [0x306E, 0x89E3, 0x8AAC, 0x3092, 0x8868, 0x793A, 0x3059, 0x308B, 0x306B,
                         0x306F] @ ascii ''AI''
                      @ [0x30D2, 0x30F3, 0x30C8, 0x3092, 0x751F, 0x6210, 0x3057, 0x3066, 0x304F,
                         0x3060, 0x3055, 0x3044, 0x3002],
      summary = nm @ ascii '' / '' @ [0x89E3, 0x8AAC, 0x6E96, 0x5099, 0x4E2D]\<rparr>"

text \<open>
  The extent loop of \<open>buildFallbackHint\<close>, one accumulator record for its four variables;
  as in \<open>getProjectedBounds\<close> the accumulators start at the first point.
\<close>

record 'n Extent =
  minLat :: 'n
  maxLat :: 'n
  minLon :: 'n
  maxLon :: 'n

definition extent_step :: "position \<Rightarrow> real Extent \<Rightarrow> real Extent" where
  "extent_step p e =
     (let (lon, lat) = p
      in \<lparr>minLat = min (minLat e) lat, maxLat = max (maxLat e) lat,
          minLon = min (minLon e) lon, maxLon = max (maxLon e) lon\<rparr>)"

definition buildFallbackHint :: "Platform \<Rightarrow> real GeoFeature \<Rightarrow> Hint" where
  "buildFallbackHint pf feature =
     (let points = extractPoints (geometry feature);
          nm = getJapaneseName pf (properties feature)
      in case points of
           [] \<Rightarrow> pendingHint nm
         | p # ps \<Rightarrow>
             (let e = fold extent_step ps
                        \<lparr>minLat = snd p, maxLat = snd p, minLon = fst p, maxLon = fst p\<rparr>;
                  centerLat = (minLat e + maxLat e) / 2;
                  centerLon = (minLon e + maxLon e) / 2;
                  latLabel = (if centerLat \<ge> 0 then latNorth else latSouth);
                  lonLabel = (if centerLon \<ge> 0 then lonEast else lonWest);
                  extentArea = \<bar>(maxLat e - minLat e) * (maxLon e - minLon e)\<bar>;
                  sizeLabel = (if extentArea < 20 then sizeSmall
                               else if extentArea < 80 then sizeMedium else sizeLarge);
                  shapeLabel =
                    (case geometry feature of
                       MultiPolygon polys \<Rightarrow>
                         if length polys > 1 then shapeFragmented else shapeContiguous
                     | Polygon rings \<Rightarrow> shapeContiguous)
              in \<lparr>main_hint = mainHintText nm latLabel lonLabel shapeLabel sizeLabel,
                  summary = summaryText nm latLabel lonLabel sizeLabel\<rparr>))"

text \<open>
  The alternation \<^verbatim>\<open>/.. | .. | .. | .. | .. | .. | degree sign/\<close> of \<open>isCoordinateHint\<close>: the
  test succeeds when one of the seven terms occurs somewhere in the value.
\<close>

definition coordinateTerms :: "jsstring list" where
  "coordinateTerms =
     [[0x7DEF, 0x5EA6], [0x7D4C, 0x5EA6], [0x5317, 0x7DEF], [0x5357, 0x7DEF],
      [0x6771, 0x7D4C], [0x897F, 0x7D4C], [0xB0]]"

definition isCoordinateHint :: "jsstring \<Rightarrow> bool" where
  "isCoordinateHint v = list_ex (\<lambda>t. sublist t v) coordinateTerms"

section \<open>Application state\<close>

type_synonym Point = "real \<times> real"

record 'n Transform =
  tx :: 'n
  ty :: 'n
  scale :: 'n

record 'n DragState =
  start :: "('n \<times> 'n) option"
  moved :: bool

text \<open>
  The state of the component: its \<^verbatim>\<open>useState\<close> cells and its \<^verbatim>\<open>useRef\<close> cells. The
  pointer map is a JavaScript \<^verbatim>\<open>Map\<close>, which iterates in insertion order and keeps the
  place of a key that is set again: an association list with \<open>AList.update\<close> and
  \<open>AList.delete\<close>. The signed-in user and the history only feed the external store
  and are left out.
\<close>

record 'n App =
  geoData :: "'n GeoFeature list option"
  currentCountry :: "'n GeoFeature option"
  hint :: "Hint option"
  loading :: bool
  error :: "jsstring option"
  feedback :: "Feedback option"
  score :: int
  selectedId :: "jsstring option"
  isHintMinimized :: bool
  transform :: "'n Transform"
  pointers :: "(int \<times> 'n \<times> 'n) list"
  lastCenter :: "('n \<times> 'n) option"
  lastDist :: 'n
  dragState :: "'n DragState"
  suppressClick :: bool

definition initialApp :: "real App" where
  "initialApp =
     \<lparr>geoData = None, currentCountry = None, hint = None, loading = False, error = None,
      feedback = None, score = 0, selectedId = None, isHintMinimized = False,
      transform = \<lparr>tx = 0, ty = 0, scale = 1\<rparr>,
      pointers = [], lastCenter = None, lastDist = 0,
      dragState = \<lparr>start = None, moved = False\<rparr>, suppressClick = False\<rparr>"

section \<open>Viewport engine\<close>

definition hypot :: "real \<Rightarrow> real \<Rightarrow> real" where
  "hypot a b = sqrt (a\<^sup>2 + b\<^sup>2)"

fun getCenter :: "(int \<times> Point) list \<Rightarrow> Point" where
  "getCenter [] = (0, 0)"
| "getCenter [(i, a)] = (fst a, snd a)"
| "getCenter ((i, a) # (j, b) # rest) = ((fst a + fst b) / 2, (snd a + snd b) / 2)"

fun getDist :: "(int \<times> Point) list \<Rightarrow> real" where
  "getDist ((i, a) # (j, b) # rest) = hypot (fst a - fst b) (snd a - snd b)"
| "getDist _ = 0"

text \<open>A pointer event: \<^verbatim>\<open>pointerId\<close>, \<^verbatim>\<open>clientX\<close>, \<^verbatim>\<open>clientY\<close>.\<close>

record 'n PointerEvent =
  pointerId :: int
  clientX :: 'n
  clientY :: 'n

record 'n WheelEvent =
  wheelX :: 'n
  wheelY :: 'n
  deltaY :: 'n

text \<open>
  What \<^verbatim>\<open>mapRef.current.getBoundingClientRect()\<close> returns; the handlers get
  \<open>None\<close> when \<^verbatim>\<open>mapRef.current\<close> is null.
\<close>

record 'n Rect =
  rect_left :: 'n
  rect_top :: 'n

definition handlePointerDown :: "real PointerEvent \<Rightarrow> real App \<Rightarrow> real App" where
  "handlePointerDown e s =
     (let ps = AList.update (pointerId e) (clientX e, clientY e) (pointers s)
      in s\<lparr>pointers := ps,
            lastCenter := Some (getCenter ps),
            lastDist := (if length ps = 2 then getDist ps else lastDist s),
            dragState :=
              (if length ps = 1 then \<lparr>start = Some (clientX e, clientY e), moved = False\<rparr>
               else (dragState s)\<lparr>moved := True\<rparr>)\<rparr>)"

text \<open>
  The updater passed to \<^verbatim>\<open>setTransform\<close> by the pinch branch and by the wheel handler
  (the same function body in both): zoom by \<open>factor\<close> about the viewport-local point
  \<open>(cx, cy)\<close>.
\<close>

definition zoomAbout :: "real \<Rightarrow> real \<Rightarrow> real \<Rightarrow> real Transform \<Rightarrow> real Transform" where
  "zoomAbout cx cy factor prev =
     (let nextScale = max 1 (min 20 (scale prev * factor));
          k = nextScale / scale prev
      in \<lparr>tx = cx - (cx - tx prev) * k, ty = cy - (cy - ty prev) * k, scale = nextScale\<rparr>)"

definition handlePointerMove ::
  "real Rect option \<Rightarrow> real PointerEvent \<Rightarrow> real App \<Rightarrow> real App" where
  "handlePointerMove mapRef e s =
     (case lastCenter s of
        None \<Rightarrow> s
      | Some lc \<Rightarrow>
          if map_of (pointers s) (pointerId e) = None then s
          else
            (let ps = AList.update (pointerId e) (clientX e, clientY e) (pointers s);
                 center = getCenter ps;
                 s1 = s\<lparr>pointers := ps\<rparr>;
                 s2 =
                   (if length ps = 1 then
                      (let dx = fst center - fst lc;
                           dy = snd center - snd lc;
                           ds = dragState s1;
                           ds' =
                             (case start ds of
                                Some st \<Rightarrow>
                                  if \<not> moved ds
                                     \<and> hypot (clientX e - fst st) (clientY e - snd st) > 6
                                  then ds\<lparr>moved := True\<rparr> else ds
                              | None \<Rightarrow> ds);
                           prev = transform s1
                       in s1\<lparr>dragState := ds',
                              transform := prev\<lparr>tx := tx prev + dx, ty := ty prev + dy\<rparr>\<rparr>)
                    else if length ps = 2 then
                      (let dist = getDist ps;
                           s' = s1\<lparr>dragState := (dragState s1)\<lparr>moved := True\<rparr>\<rparr>;
                           s'' =
                             (case mapRef of
                                Some rect \<Rightarrow>
                                  if lastDist s' > 0 then
                                    (let cx = fst center - rect_left rect;
                                         cy = snd center - rect_top rect;
                                         scaleFactor = dist / lastDist s'
                                     in s'\<lparr>transform :=
                                              zoomAbout cx cy scaleFactor (transform s')\<rparr>)
                                  else s'
                              | None \<Rightarrow> s')
                       in s''\<lparr>lastDist := dist\<rparr>)
                    else s1)
             in s2\<lparr>lastCenter := Some center\<rparr>))"

definition handlePointerUp :: "real PointerEvent \<Rightarrow> real App \<Rightarrow> real App" where
  "handlePointerUp e s =
     (let ps = AList.delete (pointerId e) (pointers s);
          s1 = s\<lparr>pointers := ps\<rparr>;
          s2 = (if moved (dragState s1) then s1\<lparr>suppressClick := True\<rparr> else s1);
          s3 = (if length ps = 1 then s2\<lparr>lastCenter := Some (getCenter ps)\<rparr> else s2)
      in if length ps = 0 then
           s3\<lparr>lastCenter := None, dragState := \<lparr>start = None, moved = False\<rparr>\<rparr>
         else if length ps = 1 then
           s3\<lparr>dragState := \<lparr>start = Some (getCenter ps), moved = False\<rparr>\<rparr>
         else s3)"

definition handleWheel :: "real Rect option \<Rightarrow> real WheelEvent \<Rightarrow> real App \<Rightarrow> real App" where
  "handleWheel mapRef e s =
     (case mapRef of
        None \<Rightarrow> s
      | Some rect \<Rightarrow>
          (let cx = wheelX e - rect_left rect;
               cy = wheelY e - rect_top rect;
               zoomFactor = exp (- deltaY e * 0.001)
           in s\<lparr>transform := zoomAbout cx cy zoomFactor (transform s)\<rparr>))"

definition resetView :: "real App \<Rightarrow> real App" where
  "resetView s = s\<lparr>transform := \<lparr>tx = 0, ty = 0, scale = 1\<rparr>\<rparr>"


subsection \<open>Fit to region\<close>

text \<open>
  What the animation-frame callback of the fit effect measures: the \<^verbatim>\<open>svg\<close> element
  (if any) with the bounding box \<open>(x, y, width, height)\<close> of the target's path (if any)
  and the view box size, and the client size of the map container.
\<close>

record 'n SvgLayout =
  pathBBox :: "('n \<times> 'n \<times> 'n \<times> 'n) option"
  viewBoxWidth :: 'n
  viewBoxHeight :: 'n

record 'n Layout =
  svg :: "'n SvgLayout option"
  clientWidth :: 'n
  clientHeight :: 'n

definition fitTransform ::
  "real Bounds \<Rightarrow> real \<Rightarrow> real \<Rightarrow> real \<Rightarrow> real \<Rightarrow> real Transform" where
  "fitTransform bounds viewWidth viewHeight containerWidth containerHeight =
     (let baseScale = min (containerWidth / viewWidth) (containerHeight / viewHeight);
          offsetX = (containerWidth - viewWidth * baseScale) / 2;
          offsetY = (containerHeight - viewHeight * baseScale) / 2;
          padding = 40;
          width = max 1 (maxX bounds - minX bounds);
          height = max 1 (maxY bounds - minY bounds);
          scaleX = (containerWidth - padding * 2) / (width * baseScale);
          scaleY = (containerHeight - padding * 2) / (height * baseScale);
          nextScale = max 1 (min 20 (min scaleX scaleY));
          centerX = (minX bounds + maxX bounds) / 2;
          centerY = (minY bounds + maxY bounds) / 2;
          centerCssX = offsetX + centerX * baseScale;
          centerCssY = offsetY + centerY * baseScale
      in \<lparr>tx = containerWidth / 2 - centerCssX * nextScale,
          ty = containerHeight / 2 - centerCssY * nextScale,
          scale = nextScale\<rparr>)"

definition fitToRegion :: "real Layout option \<Rightarrow> real App \<Rightarrow> real App" where
  "fitToRegion mapRef s =
     (case (feedback s, currentCountry s, mapRef) of
        (Some fb, Some country, Some layout) \<Rightarrow>
          (case svg layout of
             None \<Rightarrow> s
           | Some sv \<Rightarrow>
               (let bounds =
                      (case pathBBox sv of
                         Some (bx, by, bw, bh) \<Rightarrow>
                           Some \<lparr>minX = bx, maxX = bx + bw, minY = by, maxY = by + bh\<rparr>
                       | None \<Rightarrow> getProjectedBounds (geometry country))
                in case bounds of
                     None \<Rightarrow> s
                   | Some b \<Rightarrow>
                       (let viewWidth =
                              (if viewBoxWidth sv \<noteq> 0 then viewBoxWidth sv else MAP_WIDTH);
                            viewHeight =
                              (if viewBoxHeight sv \<noteq> 0 then viewBoxHeight sv else MAP_HEIGHT);
                            containerWidth = clientWidth layout;
                            containerHeight = clientHeight layout
                        in if containerWidth = 0 \<or> containerHeight = 0 then s
                           else s\<lparr>transform :=
                                    fitTransform b viewWidth viewHeight
                                      containerWidth containerHeight\<rparr>)))
      | _ \<Rightarrow> s)"

section \<open>Quiz controller\<close>

text \<open>
  How the body of \<open>generateAIHint\<close> ends after its synchronous prefix: without an API key,
  with an exception of \<^verbatim>\<open>fetch\<close>, \<^verbatim>\<open>res.json\<close> or \<^verbatim>\<open>JSON.parse\<close>, with a response that
  carries no text, or with a parsed hint.
\<close>

datatype HintOutcome = NoApiKey | Threw | NoText | Parsed Hint

text \<open>
  What a call of \<open>generateAIHint\<close> leaves behind once its synchronous prefix has run:
  a pending request for a feature, or a rejected promise when the feature is
  \<^verbatim>\<open>undefined\<close> (\<^verbatim>\<open>feature.properties\<close> throws before the \<^verbatim>\<open>try\<close> block, so neither
  \<^verbatim>\<open>catch\<close> nor \<^verbatim>\<open>finally\<close> runs).
\<close>

datatype 'n Request = NoCall | Rejected | Pending "'n GeoFeature"

definition generateAIHint ::
  "'n GeoFeature option \<Rightarrow> 'n App \<Rightarrow> 'n App \<times> 'n Request" where
  "generateAIHint feature s =
     (let s1 = s\<lparr>loading := True, hint := None\<rparr>
      in case feature of
           None \<Rightarrow> (s1, Rejected)
         | Some f \<Rightarrow> (s1, Pending f))"

definition settleAIHint ::
  "Platform \<Rightarrow> real GeoFeature \<Rightarrow> HintOutcome \<Rightarrow> real App \<Rightarrow> real App" where
  "settleAIHint pf feature outcome s =
     (let s1 =
            (case outcome of
               NoApiKey \<Rightarrow> s\<lparr>hint := Some (buildFallbackHint pf feature)\<rparr>
             | Threw \<Rightarrow> s\<lparr>hint := Some (buildFallbackHint pf feature)\<rparr>
             | NoText \<Rightarrow> s
             | Parsed parsed \<Rightarrow>
                 if isCoordinateHint (main_hint parsed) \<or> isCoordinateHint (summary parsed)
                 then s\<lparr>hint := Some (buildFallbackHint pf feature)\<rparr>
                 else s\<lparr>hint := Some parsed\<rparr>)
      in s1\<lparr>loading := False\<rparr>)"

definition nth_opt :: "'a list \<Rightarrow> nat \<Rightarrow> 'a option" where
  "nth_opt xs i = (if i < length xs then Some (xs ! i) else None)"

text \<open>
  \<open>startNewQuestion\<close>, given the value \<open>u\<close> of \<^verbatim>\<open>Math.random()\<close>. Indexing past the end
  of the feature array yields \<^verbatim>\<open>undefined\<close>.
\<close>

definition startNewQuestion :: "real \<Rightarrow> real App \<Rightarrow> real App \<times> real Request" where
  "startNewQuestion u s =
     (case geoData s of
        None \<Rightarrow> (s, NoCall)
      | Some features \<Rightarrow>
          (let random = nth_opt features (nat \<lfloor>u * real (length features)\<rfloor>);
               s1 = s\<lparr>currentCountry := random, feedback := None, selectedId := None,
                      isHintMinimized := False\<rparr>
           in generateAIHint random s1))"

definition correctMessage :: jsstring where
  "correctMessage = [0x6B63, 0x89E3, 0xFF01]"

definition wrongMessage :: "jsstring \<Rightarrow> jsstring \<Rightarrow> jsstring" where
  "wrongMessage nm correctName =
     [0x9055, 0x3044, 0x307E, 0x3059, 0x3002, 0x305D, 0x3053, 0x306F, 0x300C] @ nm
       @ [0x300D, 0x3067, 0x3059, 0x3002, 0x6B63, 0x89E3, 0x306F, 0x300C] @ correctName
       @ [0x300D, 0x3067, 0x3059, 0x3002]"

definition handleCountryClick ::
  "Platform \<Rightarrow> jsstring \<Rightarrow> jsstring \<Rightarrow> 'n App \<Rightarrow> 'n App" where
  "handleCountryClick pf cid cname s =
     (case currentCountry s of
        None \<Rightarrow> s
      | Some country \<Rightarrow>
          \<comment> \<open>the first guard, whose last disjunct is the case above\<close>
          if feedback s \<noteq> None \<or> loading s \<or> length (pointers s) > 1 then s
          else if suppressClick s then s\<lparr>suppressClick := False\<rparr>
          else
            (let correctName = getJapaneseName pf (properties country);
                 targetId = getCountryId (properties country)
             in if targetId = [] then s
                else
                  (let correct = (cid = targetId)
                   in s\<lparr>selectedId := Some cid,
                         feedback :=
                           Some \<lparr>isCorrect = correct,
                                 message = (if correct then correctMessage
                                            else wrongMessage cname correctName)\<rparr>,
                         score := (if correct then score s + 10 else score s)\<rparr>)))"

text \<open>The two ends of \<open>fetchGeoData\<close>: the request failed, or a document arrived.\<close>

datatype 'n FetchOutcome = FetchFailed jsstring | Fetched "'n RawGeoFeature list option"

definition fetchGeoData_begin :: "'n App \<Rightarrow> 'n App" where
  "fetchGeoData_begin s = s\<lparr>loading := True, error := None\<rparr>"

definition fetchGeoData_end :: "'n FetchOutcome \<Rightarrow> 'n App \<Rightarrow> 'n App" where
  "fetchGeoData_end outcome s =
     (let s1 =
            (case outcome of
               FetchFailed msg \<Rightarrow> s\<lparr>error := Some msg\<rparr>
             | Fetched features \<Rightarrow>
                 s\<lparr>geoData := Some (loadFeatures (case features of None \<Rightarrow> [] | Some fs \<Rightarrow> fs))\<rparr>)
      in s1\<lparr>loading := False\<rparr>)"

subsection \<open>Event loop\<close>

text \<open>
  Everything that changes the state is a callback of the single-threaded event loop;
  a run of the application is a list of such events applied in order.
\<close>

datatype 'n Event =
    PointerDown "'n PointerEvent"
  | PointerMove "'n Rect option" "'n PointerEvent"
  | PointerUp "'n PointerEvent"
  | Wheel "'n Rect option" "'n WheelEvent"
  | ResetView
  | CountryClick jsstring jsstring
  | StartNewQuestion 'n
  | HintSettled "'n GeoFeature" HintOutcome
  | FitToRegion "'n Layout option"
  | GeoDataBegin
  | GeoDataEnd "'n FetchOutcome"

fun step :: "Platform \<Rightarrow> real Event \<Rightarrow> real App \<Rightarrow> real App" where
  "step pf (PointerDown e) s = handlePointerDown e s"
| "step pf (PointerMove mapRef e) s = handlePointerMove mapRef e s"
| "step pf (PointerUp e) s = handlePointerUp e s"
| "step pf (Wheel mapRef e) s = handleWheel mapRef e s"
| "step pf ResetView s = resetView s"
| "step pf (CountryClick cid cname) s = handleCountryClick pf cid cname s"
| "step pf (StartNewQuestion u) s = fst (startNewQuestion u s)"
| "step pf (HintSettled feature outcome) s = settleAIHint pf feature outcome s"
| "step pf (FitToRegion mapRef) s = fitToRegion mapRef s"
| "step pf GeoDataBegin s = fetchGeoData_begin s"
| "step pf (GeoDataEnd outcome) s = fetchGeoData_end outcome s"

definition run :: "Platform \<Rightarrow> real Event list \<Rightarrow> real App \<Rightarrow> real App" where
  "run pf events s = fold (step pf) events s"

section \<open>Double-precision arithmetic\<close>

text \<open>
  The functions of this section follow the source operation by operation, as those of
  the exact model do, with every arithmetic operation rounded the way IEEE 754 binary64
  and ECMAScript prescribe. Where the exact model has a function of the same name, the
  name carries a final \<open>D\<close>.
\<close>

subsection \<open>Rounding to the nearest double\<close>

text \<open>
  \<open>rne\<close> rounds a real to the nearest integer, ties to even. \<open>expo x\<close> is the exponent of
  the binade of \<open>x\<close>, which is at least \<open>-1022\<close>: the subnormal numbers share the spacing of
  the smallest normal ones. \<open>rnd x\<close> is the multiple of \<open>2 powi (expo x - 52)\<close> nearest to
  \<open>x\<close>, ties to the even multiple: the value of the double nearest to \<open>x\<close>, as long as it
  does not overflow. A real \<open>r\<close> is the value of a double exactly when \<open>rnd r = r\<close> and
  \<open>\<bar>r\<bar> < 2\<^sup>1\<^sup>0\<^sup>2\<^sup>4\<close>.
\<close>

definition rne :: "real \<Rightarrow> int" where
  "rne x =
     (let f = \<lfloor>x\<rfloor>; d = x - of_int f
      in if d < 1 / 2 then f else if 1 / 2 < d then f + 1 else if even f then f else f + 1)"

definition expo :: "real \<Rightarrow> int" where
  "expo x = max \<lfloor>log 2 \<bar>x\<bar>\<rfloor> (- 1022)"

definition rnd :: "real \<Rightarrow> real" where
  "rnd x =
     (if x = 0 then 0
      else of_int (rne (x / 2 powi (expo x - 52))) * 2 powi (expo x - 52))"

subsection \<open>The values of a number\<close>

text \<open>
  \<open>Fin r\<close> is the finite number of value \<open>r\<close>, with \<open>Fin 0\<close> for \<open>+0\<close>, and \<open>NegZero\<close> is
  \<open>-0\<close>. \<open>fl x\<close> is the result of an operation whose exact result is \<open>x\<close>: it overflows
  to an infinity when the rounded magnitude reaches \<open>2\<^sup>1\<^sup>0\<^sup>2\<^sup>4\<close>, and a result that rounds to
  zero keeps the sign of \<open>x\<close>.
\<close>

datatype jsnum = NaN | PosInf | NegInf | NegZero | Fin real

fun val :: "jsnum \<Rightarrow> real" where
  "val (Fin r) = r"
| "val _ = 0"

fun is_nan :: "jsnum \<Rightarrow> bool" where
  "is_nan NaN = True"
| "is_nan _ = False"

fun is_inf :: "jsnum \<Rightarrow> bool" where
  "is_inf PosInf = True"
| "is_inf NegInf = True"
| "is_inf _ = False"

fun is_zero :: "jsnum \<Rightarrow> bool" where
  "is_zero NegZero = True"
| "is_zero (Fin r) = (r = 0)"
| "is_zero _ = False"

fun signbit :: "jsnum \<Rightarrow> bool" where
  "signbit NegInf = True"
| "signbit NegZero = True"
| "signbit (Fin r) = (r < 0)"
| "signbit _ = False"

definition infinity :: "bool \<Rightarrow> jsnum" where
  "infinity negative = (if negative then NegInf else PosInf)"

definition signed_zero :: "bool \<Rightarrow> jsnum" where
  "signed_zero negative = (if negative then NegZero else Fin 0)"

definition fl :: "real \<Rightarrow> jsnum" where
  "fl x =
     (let r = rnd x
      in if 2 ^ 1024 \<le> \<bar>r\<bar> then infinity (x < 0)
         else if r = 0 then signed_zero (x < 0)
         else Fin r)"

subsection \<open>Arithmetic and comparison\<close>

text \<open>
  The operators \<^verbatim>\<open>+\<close>, unary and binary \<^verbatim>\<open>-\<close>, \<^verbatim>\<open>*\<close>, \<^verbatim>\<open>/\<close>, \<^verbatim>\<open><\<close>, \<^verbatim>\<open>>\<close> and \<^verbatim>\<open>>=\<close> on numbers,
  with their special cases: \<^verbatim>\<open>NaN\<close> is contagious and compares false with everything,
  \<^verbatim>\<open>Infinity - Infinity\<close>, \<^verbatim>\<open>0 * Infinity\<close>, \<^verbatim>\<open>0 / 0\<close> and \<^verbatim>\<open>Infinity / Infinity\<close> are \<^verbatim>\<open>NaN\<close>, a
  non-zero number divided by zero is an infinity, and the two zeros are equal.
\<close>

definition fadd :: "jsnum \<Rightarrow> jsnum \<Rightarrow> jsnum" where
  "fadd a b =
     (if is_nan a \<or> is_nan b then NaN
      else if is_inf a then (if is_inf b \<and> a \<noteq> b then NaN else a)
      else if is_inf b then b
      else if a = NegZero \<and> b = NegZero then NegZero
      else fl (val a + val b))"

fun fneg :: "jsnum \<Rightarrow> jsnum" where
  "fneg NaN = NaN"
| "fneg PosInf = NegInf"
| "fneg NegInf = PosInf"
| "fneg NegZero = Fin 0"
| "fneg (Fin r) = (if r = 0 then NegZero else Fin (- r))"

definition fsub :: "jsnum \<Rightarrow> jsnum \<Rightarrow> jsnum" where
  "fsub a b = fadd a (fneg b)"

definition fmul :: "jsnum \<Rightarrow> jsnum \<Rightarrow> jsnum" where
  "fmul a b =
     (if is_nan a \<or> is_nan b then NaN
      else if is_inf a \<or> is_inf b then
        (if is_zero a \<or> is_zero b then NaN else infinity (signbit a \<noteq> signbit b))
      else if is_zero a \<or> is_zero b then signed_zero (signbit a \<noteq> signbit b)
      else fl (val a * val b))"

definition fdiv :: "jsnum \<Rightarrow> jsnum \<Rightarrow> jsnum" where
  "fdiv a b =
     (if is_nan a \<or> is_nan b then NaN
      else if is_inf a then (if is_inf b then NaN else infinity (signbit a \<noteq> signbit b))
      else if is_inf b then signed_zero (signbit a \<noteq> signbit b)
      else if is_zero b then (if is_zero a then NaN else infinity (signbit a \<noteq> signbit b))
      else if is_zero a then signed_zero (signbit a \<noteq> signbit b)
      else fl (val a / val b))"

fun jlt :: "jsnum \<Rightarrow> jsnum \<Rightarrow> bool" where
  "jlt NaN b = False"
| "jlt a NaN = False"
| "jlt PosInf b = False"
| "jlt a NegInf = False"
| "jlt NegInf b = True"
| "jlt a PosInf = True"
| "jlt a b = (val a < val b)"


definition jge :: "jsnum \<Rightarrow> jsnum \<Rightarrow> bool" where
  "jge a b = (\<not> is_nan a \<and> \<not> is_nan b \<and> \<not> jlt a b)"

subsection \<open>Functions of \<^verbatim>\<open>Math\<close>\<close>

text \<open>
  \<^verbatim>\<open>Math.min\<close> and \<^verbatim>\<open>Math.max\<close> return \<^verbatim>\<open>NaN\<close> if an argument is \<^verbatim>\<open>NaN\<close> and order \<open>-0\<close> below
  \<open>+0\<close>. \<^verbatim>\<open>Math.hypot\<close> returns \<^verbatim>\<open>Infinity\<close> if an argument is infinite, even if the other is
  \<^verbatim>\<open>NaN\<close>. ECMAScript leaves the accuracy of \<^verbatim>\<open>Math.hypot\<close> and \<^verbatim>\<open>Math.exp\<close> to the
  implementation; they are taken as correctly rounded here, and the statements below
  depend only on whether their results are \<^verbatim>\<open>NaN\<close>, infinite or finite. \<open>truthy_num\<close> is
  the truthiness of a number: \<open>0\<close>, \<open>-0\<close> and \<^verbatim>\<open>NaN\<close> are falsy.
\<close>

definition Math_min :: "jsnum \<Rightarrow> jsnum \<Rightarrow> jsnum" where
  "Math_min a b =
     (if is_nan a \<or> is_nan b then NaN
      else if jlt a b then a
      else if jlt b a then b
      else if a = NegZero then a else b)"

definition Math_max :: "jsnum \<Rightarrow> jsnum \<Rightarrow> jsnum" where
  "Math_max a b =
     (if is_nan a \<or> is_nan b then NaN
      else if jlt a b then b
      else if jlt b a then a
      else if a = NegZero then b else a)"

fun Math_abs :: "jsnum \<Rightarrow> jsnum" where
  "Math_abs NaN = NaN"
| "Math_abs PosInf = PosInf"
| "Math_abs NegInf = PosInf"
| "Math_abs NegZero = Fin 0"
| "Math_abs (Fin r) = Fin \<bar>r\<bar>"




subsection \<open>Projector, bounds and fallback hint\<close>

text \<open>
  \<open>project\<close>, \<open>getProjectedBounds\<close> and \<open>buildFallbackHint\<close> on doubles. The two loops
  start their accumulators at \<^verbatim>\<open>Infinity\<close> and \<^verbatim>\<open>-Infinity\<close>, as the source does.
\<close>

definition projectD :: "jsnum \<times> jsnum \<Rightarrow> jsnum \<times> jsnum" where
  "projectD coords =
     (let lon = fst coords;
          lat = snd coords;
          x = fmul (fadd lon (Fin 180)) (fdiv (Fin 800) (Fin 360));
          y = fmul (fsub (Fin 90) lat) (fdiv (Fin 400) (Fin 180))
      in (x, y))"

fun finite_num :: "jsnum \<Rightarrow> bool" where
  "finite_num NegZero = True"
| "finite_num (Fin r) = True"
| "finite_num _ = False"



definition extent_stepD :: "jsnum \<times> jsnum \<Rightarrow> jsnum Extent \<Rightarrow> jsnum Extent" where
  "extent_stepD p e =
     (let (lon, lat) = p
      in \<lparr>minLat = Math_min (minLat e) lat, maxLat = Math_max (maxLat e) lat,
          minLon = Math_min (minLon e) lon, maxLon = Math_max (maxLon e) lon\<rparr>)"

definition buildFallbackHintD :: "Platform \<Rightarrow> jsnum GeoFeature \<Rightarrow> Hint" where
  "buildFallbackHintD pf feature =
     (let points = extractPoints (geometry feature);
          nm = getJapaneseName pf (properties feature)
      in if points = [] then pendingHint nm
         else
           (let e = fold extent_stepD points
                      \<lparr>minLat = PosInf, maxLat = NegInf, minLon = PosInf, maxLon = NegInf\<rparr>;
                centerLat = fdiv (fadd (minLat e) (maxLat e)) (Fin 2);
                centerLon = fdiv (fadd (minLon e) (maxLon e)) (Fin 2);
                latLabel = (if jge centerLat (Fin 0) then latNorth else latSouth);
                lonLabel = (if jge centerLon (Fin 0) then lonEast else lonWest);
                extentArea =
                  Math_abs (fmul (fsub (maxLat e) (minLat e)) (fsub (maxLon e) (minLon e)));
                sizeLabel = (if jlt extentArea (Fin 20) then sizeSmall
                             else if jlt extentArea (Fin 80) then sizeMedium else sizeLarge);
                shapeLabel =
                  (case geometry feature of
                     MultiPolygon polys \<Rightarrow>
                       if length polys > 1 then shapeFragmented else shapeContiguous
                   | Polygon rings \<Rightarrow> shapeContiguous)
            in \<lparr>main_hint = mainHintText nm latLabel lonLabel shapeLabel sizeLabel,
                summary = summaryText nm latLabel lonLabel sizeLabel\<rparr>))"

subsection \<open>Viewport engine and event loop\<close>

















subsection \<open>Events of ordinary magnitude\<close>

text \<open>
  The inputs for which the double arithmetic of the viewport neither overflows nor
  produces \<^verbatim>\<open>NaN\<close>: pointer coordinates that are finite and at most \<open>2\<^sup>1\<^sup>0\<^sup>2\<^sup>2\<close> in
  magnitude, a wheel delta that is a number, and for a fit a measured bounding box with
  finite entries and lengths that are either falsy (the code then substitutes a default
  or skips the fit) or between \<open>2\<^sup>-\<^sup>5\<^sup>0\<^sup>0\<close> and \<open>2\<^sup>5\<^sup>0\<^sup>0\<close>.
\<close>

definition bounded_coord :: "jsnum \<Rightarrow> bool" where
  "bounded_coord a = (finite_num a \<and> \<bar>val a\<bar> \<le> 2 ^ 1022)"




definition scale_in_range :: "jsnum \<Rightarrow> bool" where
  "scale_in_range v = (\<exists>r. v = Fin r \<and> 1 \<le> r \<and> r \<le> 20)"


section \<open>A concrete round\<close>

text \<open>
  The fixture of the end-to-end test \<^verbatim>\<open>tests/map-quiz.spec.ts\<close>: one region, Japan, as
  a square polygon, and a hint without coordinate terms; and a platform without
  \<^verbatim>\<open>Intl.DisplayNames\<close>, whose \<open>toUpperCase\<close> is given on ASCII letters only (it is
  never consulted for the fixture, which has no two-letter code). \<open>roundStarted\<close> is the
  state the test reaches before its click.
\<close>

definition noIntl :: Platform where
  "noIntl = \<lparr>toUpperCase = map (\<lambda>c. if 97 \<le> c \<and> c \<le> 122 then c - 32 else c),
             displayNames = None\<rparr>"

definition geoFixture :: "real RawGeoFeature list" where
  "geoFixture =
     [\<lparr>raw_geometry =
         Some (RawPolygon [[(-120, 60), (120, 60), (120, -20), (-120, -20), (-120, 60)]]),
       raw_properties =
         Some \<lparr>ADMIN = Some (ascii ''Japan''), name = None, ISO_A3 = Some (ascii ''JPN''),
               ISO_A2 = None, ISO3166_1_Alpha_2 = None, ISO3166_1_Alpha_3 = None\<rparr>\<rparr>]"

definition fixtureFeature :: "real GeoFeature" where
  "fixtureFeature =
     \<lparr>geometry = Polygon [[(-120, 60), (120, 60), (120, -20), (-120, -20), (-120, 60)]],
      properties =
        \<lparr>ADMIN = Some (ascii ''Japan''), name = None, ISO_A3 = Some (ascii ''JPN''),
         ISO_A2 = None, ISO3166_1_Alpha_2 = None, ISO3166_1_Alpha_3 = None\<rparr>\<rparr>"

definition hintFixture :: Hint where
  "hintFixture =
     \<lparr>main_hint = [0x30C6, 0x30B9, 0x30C8, 0x7528, 0x306E, 0x30D2, 0x30F3, 0x30C8, 0x3067,
                   0x3059, 0x3002],
      summary = [0x30C6, 0x30B9, 0x30C8, 0x30D2, 0x30F3, 0x30C8]\<rparr>"

definition roundStarted :: "real App" where
  "roundStarted =
     run noIntl [GeoDataBegin, GeoDataEnd (Fetched (Some geoFixture)), StartNewQuestion 0,
                 HintSettled fixtureFeature (Parsed hintFixture)] initialApp"

text \<open>
  Two raw features for the loader: a named polygon without any ring, and the fixture's
  square without a name.
\<close>

definition emptyRaw :: "real RawGeoFeature" where
  "emptyRaw =
     \<lparr>raw_geometry = Some (RawPolygon []),
      raw_properties =
        Some \<lparr>ADMIN = Some (ascii ''Atlantis''), name = None, ISO_A3 = None, ISO_A2 = None,
              ISO3166_1_Alpha_2 = None, ISO3166_1_Alpha_3 = None\<rparr>\<rparr>"

definition unnamedRaw :: "real RawGeoFeature" where
  "unnamedRaw =
     \<lparr>raw_geometry =
        Some (RawPolygon [[(-120, 60), (120, 60), (120, -20), (-120, -20), (-120, 60)]]),
      raw_properties =
        Some \<lparr>ADMIN = None, name = Some [], ISO_A3 = Some (ascii ''JPN''), ISO_A2 = None,
              ISO3166_1_Alpha_2 = None, ISO3166_1_Alpha_3 = None\<rparr>\<rparr>"

text \<open>
  Two gestures. \<open>threeDown\<close>: three fingers go down one after the other.
  \<open>afterOceanDrag\<close>: in the started round, one pointer drags the map by ten pixels and is
  released, and the click that follows the release does not land on a region (no call of
  \<open>handleCountryClick\<close>); \<open>afterTap\<close>: the pointer then goes down and up again without
  moving.
\<close>

definition threeDown :: "real App" where
  "threeDown =
     handlePointerDown \<lparr>pointerId = 3, clientX = 100, clientY = 0\<rparr>
       (handlePointerDown \<lparr>pointerId = 2, clientX = 10, clientY = 0\<rparr>
         (handlePointerDown \<lparr>pointerId = 1, clientX = 0, clientY = 0\<rparr> initialApp))"

definition afterOceanDrag :: "real App" where
  "afterOceanDrag =
     handlePointerUp \<lparr>pointerId = 1, clientX = 10, clientY = 0\<rparr>
       (handlePointerMove (Some \<lparr>rect_left = 0, rect_top = 0\<rparr>)
          \<lparr>pointerId = 1, clientX = 10, clientY = 0\<rparr>
          (handlePointerDown \<lparr>pointerId = 1, clientX = 0, clientY = 0\<rparr> roundStarted))"

definition afterTap :: "real App" where
  "afterTap =
     handlePointerUp \<lparr>pointerId = 1, clientX = 50, clientY = 50\<rparr>
       (handlePointerDown \<lparr>pointerId = 1, clientX = 50, clientY = 50\<rparr> afterOceanDrag)"

subsection \<open>Fixtures in double arithmetic\<close>



text \<open>
  A region of two polygons in the southern and western hemispheres, with a name but no
  two-letter code.
\<close>

definition archipelago :: "jsnum GeoFeature" where
  "archipelago =
     \<lparr>geometry =
        MultiPolygon
          [[[(Fin (- 20), Fin (- 10)), (Fin (- 10), Fin (- 10)), (Fin (- 10), Fin (- 6)),
             (Fin (- 20), Fin (- 6)), (Fin (- 20), Fin (- 10))]],
           [[(Fin (- 15), Fin (- 8)), (Fin (- 14), Fin (- 8)), (Fin (- 14), Fin (- 7)),
             (Fin (- 15), Fin (- 8))]]],
      properties =
        \<lparr>ADMIN = Some (ascii ''Islandia''), name = None, ISO_A3 = Some (ascii ''ISL''),
         ISO_A2 = None, ISO3166_1_Alpha_2 = None, ISO3166_1_Alpha_3 = None\<rparr>\<rparr>"

text \<open>
  A rectangle of height \<open>4 + 3 \<cdot> 2\<^sup>-\<^sup>5\<^sup>0\<close> and width \<open>5 - 4 \<cdot> 2\<^sup>-\<^sup>5\<^sup>0\<close>, both doubles. Its exact
  area is below 20; the product of the two doubles rounds to 20.
\<close>

definition sliver :: "jsnum GeoFeature" where
  "sliver =
     \<lparr>geometry =
        Polygon [[(Fin 0, Fin 0), (Fin (5 - 4 / 2 ^ 50), Fin 0),
                  (Fin (5 - 4 / 2 ^ 50), Fin (4 + 3 / 2 ^ 50)), (Fin 0, Fin (4 + 3 / 2 ^ 50)),
                  (Fin 0, Fin 0)]],
      properties =
        \<lparr>ADMIN = Some (ascii ''Islandia''), name = None, ISO_A3 = Some (ascii ''ISL''),
         ISO_A2 = None, ISO3166_1_Alpha_2 = None, ISO3166_1_Alpha_3 = None\<rparr>\<rparr>"

section \<open>Theorems\<close>

subsection \<open>Zoom about a point\<close>

lemma zoomAbout_scale: "scale (zoomAbout cx cy f t) = max 1 (min 20 (scale t * f))"
  by (simp add: zoomAbout_def Let_def)

lemma zoomAbout_range: "1 \<le> scale (zoomAbout cx cy f t) \<and> scale (zoomAbout cx cy f t) \<le> 20"
  by (simp add: zoomAbout_scale)








subsection \<open>The test round, evaluated\<close>

lemma loadFeatures_fixture: "loadFeatures geoFixture = [fixtureFeature]"
  by (simp add: loadFeatures_def narrow_def geoFixture_def fixtureFeature_def
      List.map_filter_simps js_or_def ascii_def)

lemma isCoordinateHint_fixture:
  "\<not> isCoordinateHint (main_hint hintFixture)" "\<not> isCoordinateHint (summary hintFixture)"
  by (simp_all add: isCoordinateHint_def coordinateTerms_def hintFixture_def ascii_def
      sublist_Cons_right prefix_Cons)

lemma roundStarted_eq:
  "roundStarted =
     initialApp\<lparr>geoData := Some [fixtureFeature], currentCountry := Some fixtureFeature,
                hint := Some hintFixture\<rparr>"
  by (simp add: roundStarted_def run_def fetchGeoData_begin_def fetchGeoData_end_def
      loadFeatures_fixture startNewQuestion_def generateAIHint_def nth_opt_def settleAIHint_def
      isCoordinateHint_fixture initialApp_def Let_def)

lemma fixture_names:
  "getCountryId (properties fixtureFeature) = ascii ''JPN''"
  "getJapaneseName noIntl (properties fixtureFeature) = ascii ''Japan''"
  by (simp_all add: getCountryId_def getJapaneseName_def getEnglishName_def fixtureFeature_def
      noIntl_def js_or_def ascii_def Let_def)

lemma click_fixture:
  "handleCountryClick noIntl (ascii ''JPN'') (ascii ''Japan'') roundStarted =
     roundStarted\<lparr>selectedId := Some (ascii ''JPN''),
                  feedback := Some \<lparr>isCorrect = True, message = correctMessage\<rparr>,
                  score := 10\<rparr>"
  by (simp add: handleCountryClick_def roundStarted_eq fixture_names initialApp_def Let_def
      ascii_def)

subsection \<open>Guarded selections\<close>

lemma handleCountryClick_guarded:
  assumes "feedback s \<noteq> None \<or> loading s \<or> length (pointers s) > 1 \<or> currentCountry s = None"
  shows "handleCountryClick pf cid cname s = s"
  using assms by (auto simp add: handleCountryClick_def split: option.splits)

lemma pointer_handlers_quiz:
  "feedback (handlePointerDown e s) = feedback s"
  "selectedId (handlePointerDown e s) = selectedId s"
  "score (handlePointerDown e s) = score s"
  "feedback (handlePointerUp e s) = feedback s"
  "selectedId (handlePointerUp e s) = selectedId s"
  "score (handlePointerUp e s) = score s"
  by (simp_all add: handlePointerDown_def handlePointerUp_def Let_def)

lemma handlePointerMove_quiz:
  "feedback (handlePointerMove mapRef e s) = feedback s"
  "selectedId (handlePointerMove mapRef e s) = selectedId s"
  "score (handlePointerMove mapRef e s) = score s"
  by (simp_all add: handlePointerMove_def Let_def split: option.splits)

lemma view_handlers_quiz:
  "feedback (handleWheel mapRef w s) = feedback s"
  "selectedId (handleWheel mapRef w s) = selectedId s"
  "score (handleWheel mapRef w s) = score s"
  "feedback (resetView s) = feedback s"
  "selectedId (resetView s) = selectedId s"
  "score (resetView s) = score s"
  "feedback (fitToRegion lay s) = feedback s"
  "selectedId (fitToRegion lay s) = selectedId s"
  "score (fitToRegion lay s) = score s"
  by (simp_all add: handleWheel_def resetView_def fitToRegion_def Let_def
      split: option.splits prod.splits)

lemma async_handlers_quiz:
  "feedback (settleAIHint pf f outcome s) = feedback s"
  "selectedId (settleAIHint pf f outcome s) = selectedId s"
  "score (settleAIHint pf f outcome s) = score s"
  "feedback (fetchGeoData_begin s) = feedback s"
  "selectedId (fetchGeoData_begin s) = selectedId s"
  "score (fetchGeoData_begin s) = score s"
  "feedback (fetchGeoData_end fo s) = feedback s"
  "selectedId (fetchGeoData_end fo s) = selectedId s"
  "score (fetchGeoData_end fo s) = score s"
  by (simp_all add: settleAIHint_def fetchGeoData_begin_def fetchGeoData_end_def Let_def
      split: HintOutcome.splits FetchOutcome.splits)

lemma step_answered:
  assumes "feedback s \<noteq> None" and "\<forall>u. ev \<noteq> StartNewQuestion u"
  shows "feedback (step pf ev s) = feedback s \<and> selectedId (step pf ev s) = selectedId s
         \<and> score (step pf ev s) = score s"
proof (cases ev)
  case (CountryClick cid cname)
  with assms(1) show ?thesis
    by (simp add: handleCountryClick_guarded)
next
  case (StartNewQuestion u)
  with assms(2) show ?thesis
    by simp
qed (simp_all add: pointer_handlers_quiz handlePointerMove_quiz view_handlers_quiz
    async_handlers_quiz)

lemma run_answered:
  assumes "feedback s \<noteq> None" and "\<forall>u. StartNewQuestion u \<notin> set events"
  shows "feedback (run pf events s) = feedback s \<and> selectedId (run pf events s) = selectedId s
         \<and> score (run pf events s) = score s"
  using assms unfolding run_def
proof (induction events arbitrary: s)
  case Nil
  then show ?case by simp
next
  case (Cons ev events)
  from Cons.prems(2) have ev: "\<forall>u. ev \<noteq> StartNewQuestion u"
    and rest: "\<forall>u. StartNewQuestion u \<notin> set events"
    by auto
  note st = step_answered [OF Cons.prems(1) ev, of pf]
  with Cons.prems(1) have "feedback (step pf ev s) \<noteq> None"
    by simp
  from Cons.IH [OF this rest] st show ?case
    by simp
qed

text \<open>
  C5. A region click changes nothing (the whole state is returned as it was, so feedback,
  selected identifier and score are unchanged) whenever feedback is already present, or a
  hint fetch is in flight, or more than one pointer is active, or there is no current
  target. In particular, once a selection has been accepted, feedback, selected identifier
  and score stay as they are through every further event of the round, clicks included,
  until a new round is started.
\<close>

theorem guarded_click_noop:
  "(feedback s \<noteq> None \<or> loading s \<or> length (pointers s) > 1 \<or> currentCountry s = None
      \<longrightarrow> handleCountryClick pf cid cname s = s)
   \<and> (feedback s \<noteq> None \<and> (\<forall>u. StartNewQuestion u \<notin> set events)
      \<longrightarrow> feedback (run pf events s) = feedback s
          \<and> selectedId (run pf events s) = selectedId s
          \<and> score (run pf events s) = score s)"
  using handleCountryClick_guarded [of s pf cid cname] run_answered [of s events pf]
  by blast

theorem guarded_click_noop_witness:
  fixes answered :: "real App" and events :: "real Event list"
  defines "answered \<equiv> handleCountryClick noIntl (ascii ''JPN'') (ascii ''Japan'') roundStarted"
  defines "events \<equiv>
    [CountryClick (ascii ''FRA'') (ascii ''France''),
     PointerDown \<lparr>pointerId = 1, clientX = 3, clientY = 4\<rparr>,
     PointerUp \<lparr>pointerId = 1, clientX = 3, clientY = 4\<rparr>,
     CountryClick (ascii ''JPN'') (ascii ''Japan'')]"
  shows "feedback answered \<noteq> None \<and> (\<forall>u. StartNewQuestion u \<notin> set events)
         \<and> handleCountryClick noIntl (ascii ''FRA'') (ascii ''France'') answered = answered
         \<and> feedback (run noIntl events answered)
             = Some \<lparr>isCorrect = True, message = correctMessage\<rparr>
         \<and> selectedId (run noIntl events answered) = Some (ascii ''JPN'')
         \<and> score (run noIntl events answered) = 10"
proof -
  note inst = guarded_click_noop [of answered noIntl "ascii ''FRA''" "ascii ''France''" events]
  have fb: "feedback answered = Some \<lparr>isCorrect = True, message = correctMessage\<rparr>"
    and sel: "selectedId answered = Some (ascii ''JPN'')" and sc: "score answered = 10"
    by (simp_all add: answered_def click_fixture)
  have ev: "\<forall>u. StartNewQuestion u \<notin> set events"
    by (simp add: events_def)
  from inst fb sel sc ev show ?thesis
    by simp
qed

subsection \<open>Coordinate filter\<close>




subsection \<open>Geometry loader\<close>

lemma set_loadFeatures:
  "set (loadFeatures raws) = {f. \<exists>raw \<in> set raws. narrow raw = Some f}"
  by (force simp add: loadFeatures_def List.map_filter_def)

lemma narrow_None_iff:
  "narrow raw = None \<longleftrightarrow>
     \<not> isGeometrySupported (raw_geometry raw) \<or> \<not> hasName (raw_properties raw)"
  by (cases "raw_geometry raw" rule: isGeometrySupported.cases;
      cases "raw_properties raw") (auto simp add: narrow_def)

lemma isGeometrySupported_iff:
  "isGeometrySupported g \<longleftrightarrow>
     (\<exists>cs. g = Some (RawPolygon cs)) \<or> (\<exists>cs. g = Some (RawMultiPolygon cs))"
  by (cases g rule: isGeometrySupported.cases) auto

lemma hasName_iff:
  "hasName ps \<longleftrightarrow> (\<exists>p. ps = Some p \<and> (truthy (ADMIN p) \<or> truthy (name p)))"
  by (cases ps) (auto simp add: js_or_def)

lemma narrow_Some:
  assumes "narrow raw = Some f"
  shows "raw_properties raw = Some (properties f)"
    and "(\<exists>cs. raw_geometry raw = Some (RawPolygon cs) \<and> geometry f = Polygon cs)
         \<or> (\<exists>cs. raw_geometry raw = Some (RawMultiPolygon cs) \<and> geometry f = MultiPolygon cs)"
    and "truthy (ADMIN (properties f)) \<or> truthy (name (properties f))"
  using assms
  by (cases "raw_geometry raw" rule: isGeometrySupported.cases;
      cases "raw_properties raw"; auto simp add: narrow_def js_or_def split: if_splits)+

lemma or_default_nonempty: "d \<noteq> [] \<Longrightarrow> or_default a d \<noteq> []"
  by (cases "(a, d)" rule: or_default.cases) auto

lemma getEnglishName_nonempty: "getEnglishName p \<noteq> []"
  by (simp add: getEnglishName_def or_default_nonempty ascii_def)

lemma getJapaneseName_nonempty: "getJapaneseName pf p \<noteq> []"
  by (auto simp add: getJapaneseName_def Let_def getEnglishName_nonempty or_default_nonempty
      split: option.splits prod.splits)

text \<open>
  C7, as the specification states it, fails: a raw feature whose geometry is a Polygon
  with no ring, and which has a name, enters the loaded collection, and its point set is
  empty. The loader tests the kind of the geometry only; the later stages each handle an
  empty point set themselves.
\<close>

theorem loaded_region_may_have_no_points:
  "loadFeatures [emptyRaw] =
     [\<lparr>geometry = Polygon [],
       properties = \<lparr>ADMIN = Some (ascii ''Atlantis''), name = None, ISO_A3 = None,
                     ISO_A2 = None, ISO3166_1_Alpha_2 = None, ISO3166_1_Alpha_3 = None\<rparr>\<rparr>]
   \<and> extractPoints (geometry
         \<lparr>geometry = Polygon [],
          properties = \<lparr>ADMIN = Some (ascii ''Atlantis''), name = None, ISO_A3 = None,
                        ISO_A2 = None, ISO3166_1_Alpha_2 = None, ISO3166_1_Alpha_3 = None\<rparr>\<rparr>) = []"
  by (simp add: loadFeatures_def narrow_def emptyRaw_def List.map_filter_simps js_or_def
      ascii_def)

text \<open>
  C7, amended. Every region in the loaded collection comes from a raw feature with the
  same properties and with a geometry of one of the two supported kinds, carried over
  unchanged (its point set may be empty); its \<open>ADMIN\<close> or \<open>name\<close> field is a non-empty
  string, and its English and display names are non-empty. Every raw feature whose
  geometry is missing or of another kind, or whose properties are missing or have neither
  a non-empty \<open>ADMIN\<close> nor a non-empty \<open>name\<close>, is dropped: the loaded collection is the
  same as without it.
\<close>

theorem loaded_regions_supported_and_named:
  "(f \<in> set (loadFeatures raws) \<longrightarrow>
      (\<exists>raw \<in> set raws.
          raw_properties raw = Some (properties f)
          \<and> ((\<exists>cs. raw_geometry raw = Some (RawPolygon cs) \<and> geometry f = Polygon cs)
             \<or> (\<exists>cs. raw_geometry raw = Some (RawMultiPolygon cs)
                     \<and> geometry f = MultiPolygon cs)))
      \<and> (truthy (ADMIN (properties f)) \<or> truthy (name (properties f)))
      \<and> getEnglishName (properties f) \<noteq> []
      \<and> getJapaneseName pf (properties f) \<noteq> [])
   \<and> ((raw_geometry raw = None \<or> (\<exists>kind. raw_geometry raw = Some (RawOther kind))
        \<or> raw_properties raw = None
        \<or> (\<exists>p. raw_properties raw = Some p \<and> \<not> truthy (ADMIN p) \<and> \<not> truthy (name p)))
       \<longrightarrow> narrow raw = None \<and> loadFeatures (before @ raw # after)
                                = loadFeatures before @ loadFeatures after)"
proof -
  have loaded: "\<exists>raw \<in> set raws.
          raw_properties raw = Some (properties f)
          \<and> ((\<exists>cs. raw_geometry raw = Some (RawPolygon cs) \<and> geometry f = Polygon cs)
             \<or> (\<exists>cs. raw_geometry raw = Some (RawMultiPolygon cs)
                     \<and> geometry f = MultiPolygon cs))"
    and named: "truthy (ADMIN (properties f)) \<or> truthy (name (properties f))"
    if "f \<in> set (loadFeatures raws)"
  proof -
    from that obtain r where r: "r \<in> set raws" "narrow r = Some f"
      by (auto simp add: set_loadFeatures)
    from r(1) narrow_Some(1,2) [OF r(2)] show "\<exists>raw \<in> set raws.
          raw_properties raw = Some (properties f)
          \<and> ((\<exists>cs. raw_geometry raw = Some (RawPolygon cs) \<and> geometry f = Polygon cs)
             \<or> (\<exists>cs. raw_geometry raw = Some (RawMultiPolygon cs)
                     \<and> geometry f = MultiPolygon cs))"
      by blast
    from narrow_Some(3) [OF r(2)]
    show "truthy (ADMIN (properties f)) \<or> truthy (name (properties f))" .
  qed
  have dropped: "narrow raw = None \<and> loadFeatures (before @ raw # after)
                                = loadFeatures before @ loadFeatures after"
    if "raw_geometry raw = None \<or> (\<exists>kind. raw_geometry raw = Some (RawOther kind))
        \<or> raw_properties raw = None
        \<or> (\<exists>p. raw_properties raw = Some p \<and> \<not> truthy (ADMIN p) \<and> \<not> truthy (name p))"
  proof -
    from that have "\<not> isGeometrySupported (raw_geometry raw) \<or> \<not> hasName (raw_properties raw)"
      by (auto simp add: isGeometrySupported_iff hasName_iff)
    then have none: "narrow raw = None"
      by (simp only: narrow_None_iff)
    then show ?thesis
      by (simp add: loadFeatures_def List.map_filter_def)
  qed
  from loaded named dropped getEnglishName_nonempty getJapaneseName_nonempty show ?thesis
    by blast
qed

theorem loaded_regions_supported_and_named_witness:
  "fixtureFeature \<in> set (loadFeatures (geoFixture @ [unnamedRaw]))
   \<and> (\<exists>p. raw_properties unnamedRaw = Some p \<and> \<not> truthy (ADMIN p) \<and> \<not> truthy (name p))
   \<and> narrow unnamedRaw = None
   \<and> loadFeatures (geoFixture @ [unnamedRaw]) = [fixtureFeature]
   \<and> (truthy (ADMIN (properties fixtureFeature)) \<or> truthy (name (properties fixtureFeature)))
   \<and> getJapaneseName noIntl (properties fixtureFeature) \<noteq> []"
proof -
  note inst = loaded_regions_supported_and_named [of fixtureFeature "geoFixture @ [unnamedRaw]"
      noIntl unnamedRaw geoFixture "[]"]
  have unnamed: "\<exists>p. raw_properties unnamedRaw = Some p \<and> \<not> truthy (ADMIN p) \<and> \<not> truthy (name p)"
    by (simp add: unnamedRaw_def)
  with inst have dropped: "narrow unnamedRaw = None"
    and same: "loadFeatures (geoFixture @ [unnamedRaw]) = loadFeatures geoFixture @ loadFeatures []"
    by blast+
  have nil: "loadFeatures [] = []"
    by (simp add: loadFeatures_def List.map_filter_simps)
  from same have coll: "loadFeatures (geoFixture @ [unnamedRaw]) = [fixtureFeature]"
    by (simp only: loadFeatures_fixture nil append_Nil2)
  then have mem: "fixtureFeature \<in> set (loadFeatures (geoFixture @ [unnamedRaw]))"
    by simp
  from inst mem unnamed dropped coll show ?thesis
    by blast
qed

subsection \<open>Starting a round\<close>

lemma startNewQuestion_absent: "geoData s = None \<Longrightarrow> startNewQuestion u s = (s, NoCall)"
  by (simp add: startNewQuestion_def)

lemma fetch_empty_document:
  "fetchGeoData_end (Fetched (Some [])) (fetchGeoData_begin initialApp) =
     initialApp\<lparr>geoData := Some []\<rparr>"
  by (simp add: fetchGeoData_end_def fetchGeoData_begin_def loadFeatures_def initialApp_def
      List.map_filter_simps)

text \<open>
  C6 on a loaded collection with zero regions (for instance after a document without
  features, \<open>fetch_empty_document\<close>): \<open>startNewQuestion\<close> passes its only guard, reads
  \<^verbatim>\<open>undefined\<close> from the empty array and calls \<open>generateAIHint\<close> with it, which sets
  \<open>loading\<close> and then throws before its \<^verbatim>\<open>try\<close> block. The call is not a no-op: \<open>loading\<close>
  is left set, and nothing will clear it.
\<close>

theorem startNewQuestion_empty_collection:
  "startNewQuestion u (initialApp\<lparr>geoData := Some []\<rparr>) =
     (initialApp\<lparr>geoData := Some [], loading := True\<rparr>, Rejected)"
  by (simp add: startNewQuestion_def generateAIHint_def nth_opt_def initialApp_def Let_def)

theorem startNewQuestion_empty_collection_witness:
  "loading (run noIntl [GeoDataBegin, GeoDataEnd (Fetched (Some [])), StartNewQuestion (1 / 2)]
              initialApp)
   \<and> snd (startNewQuestion (1 / 2) (initialApp\<lparr>geoData := Some []\<rparr>)) = Rejected"
  using startNewQuestion_empty_collection [of "1 / 2"]
  by (simp add: run_def fetch_empty_document)

subsection \<open>Releasing a pointer\<close>

lemma hypot_axis: "hypot a 0 = \<bar>a\<bar>"
  by (simp add: hypot_def)

lemma handlePointerUp_pointers:
  "pointers (handlePointerUp e s) = AList.delete (pointerId e) (pointers s)"
  by (simp add: handlePointerUp_def Let_def)

lemma release_to_one_pointer:
  assumes "AList.delete (pointerId e) (pointers s) = [(i, p)]"
  shows "lastCenter (handlePointerUp e s) = Some p"
    and "dragState (handlePointerUp e s) = \<lparr>start = Some p, moved = False\<rparr>"
  using assms by (simp_all add: handlePointerUp_def Let_def)

lemma threeDown_eq:
  "threeDown =
     initialApp\<lparr>pointers := [(1, (0, 0)), (2, (10, 0)), (3, (100, 0))],
                lastCenter := Some (5, 0), lastDist := 10,
                dragState := \<lparr>start = Some (0, 0), moved = True\<rparr>\<rparr>"
  by (simp add: threeDown_def handlePointerDown_def initialApp_def Let_def hypot_axis)

text \<open>
  C10 when two pointers remain. Three fingers are down at \<open>(0,0)\<close>, \<open>(10,0)\<close> and
  \<open>(100,0)\<close>, and the first is released. The released pointer is removed, but the stored
  centroid \<open>(5,0)\<close> and the stored baseline \<open>10\<close> are those of the first two fingers,
  while the remaining two have centroid \<open>(55,0)\<close> and distance \<open>90\<close>. The next move
  event, which reports the third finger where it already is, multiplies the scale by 9.
\<close>

theorem release_to_two_pointers_keeps_stale_baseline:
  fixes released :: "real App"
  defines "released \<equiv> handlePointerUp \<lparr>pointerId = 1, clientX = 0, clientY = 0\<rparr> threeDown"
  shows "pointers released = [(2, (10, 0)), (3, (100, 0))]
         \<and> lastDist released = 10 \<and> getDist (pointers released) = 90
         \<and> lastCenter released = Some (5, 0) \<and> getCenter (pointers released) = (55, 0)
         \<and> scale (transform released) = 1
         \<and> scale (transform (handlePointerMove (Some \<lparr>rect_left = 0, rect_top = 0\<rparr>)
                     \<lparr>pointerId = 3, clientX = 100, clientY = 0\<rparr> released)) = 9"
proof -
  have rel: "released =
     initialApp\<lparr>pointers := [(2, (10, 0)), (3, (100, 0))],
                lastCenter := Some (5, 0), lastDist := 10,
                dragState := \<lparr>start = Some (0, 0), moved = True\<rparr>, suppressClick := True\<rparr>"
    by (simp add: released_def threeDown_eq handlePointerUp_def initialApp_def Let_def
        AList.delete_eq)
  show ?thesis
    unfolding rel
    by (simp add: handlePointerMove_def zoomAbout_def initialApp_def Let_def hypot_axis)
qed

theorem release_to_two_pointers_keeps_stale_baseline_witness:
  "scale (transform (run noIntl
     [PointerDown \<lparr>pointerId = 1, clientX = 0, clientY = 0\<rparr>,
      PointerDown \<lparr>pointerId = 2, clientX = 10, clientY = 0\<rparr>,
      PointerDown \<lparr>pointerId = 3, clientX = 100, clientY = 0\<rparr>,
      PointerUp \<lparr>pointerId = 1, clientX = 0, clientY = 0\<rparr>,
      PointerMove (Some \<lparr>rect_left = 0, rect_top = 0\<rparr>)
        \<lparr>pointerId = 3, clientX = 100, clientY = 0\<rparr>] initialApp)) = 9"
  using release_to_two_pointers_keeps_stale_baseline
  by (simp add: run_def threeDown_def)

subsection \<open>Drag and click suppression\<close>

lemma getCountryId_nonempty: "getCountryId p \<noteq> []"
  by (simp add: getCountryId_def or_default_nonempty ascii_def)

lemma click_accepted:
  assumes "feedback s = None" "\<not> loading s" "length (pointers s) \<le> 1"
    "currentCountry s = Some country" "\<not> suppressClick s"
  shows "feedback (handleCountryClick pf cid cname s) \<noteq> None"
    and "selectedId (handleCountryClick pf cid cname s) = Some cid"
  using assms by (simp_all add: handleCountryClick_def getCountryId_nonempty Let_def)

lemma click_consumes_suppression:
  assumes "feedback s = None" "\<not> loading s" "length (pointers s) \<le> 1"
    "currentCountry s = Some country" "suppressClick s"
  shows "handleCountryClick pf cid cname s = s\<lparr>suppressClick := False\<rparr>"
  using assms by (simp add: handleCountryClick_def)

lemma move_single_pointer:
  assumes "pointers s = [(i, p)]" "lastCenter s = Some lc" "start (dragState s) = Some st"
    "pointerId e = i"
  shows "handlePointerMove m e s =
     s\<lparr>pointers := [(i, (clientX e, clientY e))],
       dragState :=
         (if \<not> moved (dragState s) \<and> hypot (clientX e - fst st) (clientY e - snd st) > 6
          then (dragState s)\<lparr>moved := True\<rparr> else dragState s),
       transform := (transform s)\<lparr>tx := tx (transform s) + (clientX e - fst lc),
                                   ty := ty (transform s) + (clientY e - snd lc)\<rparr>,
       lastCenter := Some (clientX e, clientY e)\<rparr>"
  using assms by (simp add: handlePointerMove_def Let_def)

lemma moves_single_pointer:
  fixes moves :: "(real Rect option \<times> real PointerEvent) list"
  assumes "pointers s = [(i, p)]" "lastCenter s \<noteq> None" "start (dragState s) = Some st"
    "\<forall>m \<in> set moves. pointerId (snd m) = i"
  defines "s' \<equiv> fold (\<lambda>m. handlePointerMove (fst m) (snd m)) moves s"
  shows "(\<exists>p'. pointers s' = [(i, p')]) \<and> lastCenter s' \<noteq> None
         \<and> start (dragState s') = Some st \<and> suppressClick s' = suppressClick s
         \<and> (moved (dragState s') \<longleftrightarrow>
              moved (dragState s)
              \<or> (\<exists>m \<in> set moves. hypot (clientX (snd m) - fst st) (clientY (snd m) - snd st) > 6))"
  using assms(1-4) unfolding s'_def
proof (induction moves arbitrary: s p)
  case Nil
  then show ?case by simp
next
  case (Cons m moves)
  from Cons.prems(2) obtain lc where lc: "lastCenter s = Some lc"
    by blast
  from Cons.prems(4) have idm: "pointerId (snd m) = i"
    and rest: "\<forall>m \<in> set moves. pointerId (snd m) = i"
    by simp_all
  note mv = move_single_pointer [OF Cons.prems(1) lc Cons.prems(3) idm, of "fst m"]
  let ?s1 = "handlePointerMove (fst m) (snd m) s"
  have p1: "pointers ?s1 = [(i, (clientX (snd m), clientY (snd m)))]"
    and l1: "lastCenter ?s1 \<noteq> None" and d1: "start (dragState ?s1) = Some st"
    and f1: "suppressClick ?s1 = suppressClick s"
    and m1: "moved (dragState ?s1) \<longleftrightarrow> moved (dragState s)
              \<or> hypot (clientX (snd m) - fst st) (clientY (snd m) - snd st) > 6"
    using Cons.prems(3) by (auto simp add: mv)
  from Cons.IH [OF p1 l1 d1 rest] f1 m1 show ?case
    by auto
qed

lemma single_pointer_release:
  fixes moves :: "(real Rect option \<times> real PointerEvent) list"
  assumes idle: "pointers s = []"
    and ids: "\<forall>m \<in> set moves. pointerId (snd m) = pointerId down"
    and up: "pointerId up = pointerId down"
  defines "far \<equiv> \<exists>m \<in> set moves.
             hypot (clientX (snd m) - clientX down) (clientY (snd m) - clientY down) > 6"
  defines "s' \<equiv> handlePointerUp up
             (fold (\<lambda>m. handlePointerMove (fst m) (snd m)) moves (handlePointerDown down s))"
  shows "pointers s' = []" and "suppressClick s' \<longleftrightarrow> suppressClick s \<or> far"
proof -
  let ?s0 = "handlePointerDown down s"
  let ?s1 = "fold (\<lambda>m. handlePointerMove (fst m) (snd m)) moves ?s0"
  have p0: "pointers ?s0 = [(pointerId down, (clientX down, clientY down))]"
    and l0: "lastCenter ?s0 \<noteq> None"
    and d0: "start (dragState ?s0) = Some (clientX down, clientY down)"
    and m0: "\<not> moved (dragState ?s0)" and f0: "suppressClick ?s0 = suppressClick s"
    using idle by (simp_all add: handlePointerDown_def Let_def)
  from moves_single_pointer [OF p0 l0 d0 ids] m0 f0
  obtain p' where p1: "pointers ?s1 = [(pointerId down, p')]"
    and f1: "suppressClick ?s1 = suppressClick s" and m1: "moved (dragState ?s1) \<longleftrightarrow> far"
    unfolding far_def by auto
  show "pointers s' = []"
    unfolding s'_def using p1 up by (simp add: handlePointerUp_def Let_def AList.delete_eq)
  show "suppressClick s' \<longleftrightarrow> suppressClick s \<or> far"
    unfolding s'_def using p1 f1 m1 up
    by (auto simp add: handlePointerUp_def Let_def AList.delete_eq)
qed

lemma afterOceanDrag_eq:
  "afterOceanDrag =
     roundStarted\<lparr>transform := \<lparr>tx = 10, ty = 0, scale = 1\<rparr>, suppressClick := True\<rparr>"
  by (simp add: afterOceanDrag_def roundStarted_eq handlePointerDown_def handlePointerMove_def
      handlePointerUp_def initialApp_def Let_def hypot_axis AList.delete_eq)

lemma afterTap_eq: "afterTap = afterOceanDrag"
  by (simp add: afterTap_def afterOceanDrag_eq roundStarted_eq handlePointerDown_def
      handlePointerUp_def initialApp_def Let_def AList.delete_eq)

text \<open>
  C4 after a drag whose click reached no region. \<open>single_pointer_release\<close> shows that a
  single-pointer interaction leaves the suppression flag set exactly when it was set
  before or the pointer went further than 6 pixels from where it went down, and
  \<open>click_consumes_suppression\<close> and \<open>click_accepted\<close> that a click that passes the first
  guard clears a set flag and is accepted under a clear one. So a tap after a clean state
  is accepted. But nothing clears the flag except such a click: after the drag of
  \<open>afterOceanDrag\<close> the flag is still set when the next interaction, a tap without any
  movement, ends, and the click of that tap on the target region is swallowed, although
  every other guard lets it pass.
\<close>

theorem stale_suppression_swallows_tap:
  "suppressClick afterOceanDrag
   \<and> pointers afterTap = [] \<and> feedback afterTap = None \<and> \<not> loading afterTap
   \<and> currentCountry afterTap = Some fixtureFeature
   \<and> handleCountryClick noIntl (ascii ''JPN'') (ascii ''Japan'') afterTap =
       afterTap\<lparr>suppressClick := False\<rparr>
   \<and> feedback (handleCountryClick noIntl (ascii ''JPN'') (ascii ''Japan'') afterTap) = None
   \<and> score (handleCountryClick noIntl (ascii ''JPN'') (ascii ''Japan'') afterTap) = 0"
  by (simp add: afterTap_eq afterOceanDrag_eq roundStarted_eq handleCountryClick_def
      initialApp_def)

theorem stale_suppression_swallows_tap_witness:
  "feedback (run noIntl
     [PointerDown \<lparr>pointerId = 1, clientX = 0, clientY = 0\<rparr>,
      PointerMove (Some \<lparr>rect_left = 0, rect_top = 0\<rparr>)
        \<lparr>pointerId = 1, clientX = 10, clientY = 0\<rparr>,
      PointerUp \<lparr>pointerId = 1, clientX = 10, clientY = 0\<rparr>,
      PointerDown \<lparr>pointerId = 1, clientX = 50, clientY = 50\<rparr>,
      PointerUp \<lparr>pointerId = 1, clientX = 50, clientY = 50\<rparr>,
      CountryClick (ascii ''JPN'') (ascii ''Japan'')] roundStarted) = None"
  using stale_suppression_swallows_tap
  by (simp add: run_def afterTap_def afterOceanDrag_def)

section \<open>Theorems on double arithmetic\<close>

subsection \<open>Rounding\<close>

text \<open>
  Rounding is monotone and odd, and leaves the numbers of the form \<open>m \<cdot> 2\<^sup>e\<close> with
  \<open>\<bar>m\<bar> < 2\<^sup>5\<^sup>3\<close> and \<open>e \<ge> -1074\<close> unchanged.
\<close>

lemma rne_of_int [simp]: "rne (of_int n) = n"
  by (simp add: rne_def)

lemma rne_bounds: "of_int \<lfloor>x\<rfloor> \<le> (of_int (rne x) :: real)" "rne x \<le> \<lfloor>x\<rfloor> + 1"
  by (auto simp add: rne_def Let_def)

lemma rne_mono:
  assumes "x \<le> y"
  shows "rne x \<le> rne y"
proof (cases "\<lfloor>x\<rfloor> = \<lfloor>y\<rfloor>")
  case True
  with assms show ?thesis
    by (auto simp add: rne_def Let_def)
next
  case False
  with assms have "\<lfloor>x\<rfloor> + 1 \<le> \<lfloor>y\<rfloor>"
    using floor_mono [OF assms] by linarith
  moreover have "rne x \<le> \<lfloor>x\<rfloor> + 1" "\<lfloor>y\<rfloor> \<le> rne y"
    by (auto simp add: rne_def Let_def)
  ultimately show ?thesis
    by linarith
qed

lemma rne_minus: "rne (- x) = - rne x"
proof (cases "x \<in> \<int>")
  case True
  then obtain n where "x = of_int n"
    by (auto elim: Ints_cases)
  then show ?thesis
    by (simp flip: of_int_minus)
next
  case False
  then have ne: "x \<noteq> of_int \<lfloor>x\<rfloor>"
    by (metis Ints_of_int)
  then have fm: "\<lfloor>- x\<rfloor> = - \<lfloor>x\<rfloor> - 1"
    by (simp add: floor_minus ceiling_altdef)
  from ne show ?thesis
    unfolding rne_def Let_def fm by (auto simp add: algebra_simps)
qed

lemma rne_error: "\<bar>of_int (rne x) - x\<bar> \<le> 1 / 2"
  by (auto simp add: rne_def Let_def abs_if) linarith+

lemma two_powi_pos [simp]: "0 < (2::real) powi k"
  by (simp add: power_int_def)

lemma two_powi_mono: "j \<le> k \<Longrightarrow> (2::real) powi j \<le> 2 powi k"
  by (rule power_int_increasing) simp_all

lemma two_powi_add: "(2::real) powi (j + k) = 2 powi j * 2 powi k"
  by (simp add: power_int_add)

lemma two_powi_powr: "(2::real) powi k = 2 powr (of_int k)"
  by (simp add: powr_real_of_int' power_int_def)

lemma expo_ge: "- 1022 \<le> expo x"
  by (simp add: expo_def)

lemma expo_upper:
  assumes "x \<noteq> 0"
  shows "\<bar>x\<bar> < 2 powi (expo x + 1)"
proof -
  have "\<bar>x\<bar> < 2 powr (of_int \<lfloor>log 2 \<bar>x\<bar>\<rfloor> + 1)"
    using assms floor_log_eq_powr_iff [of "\<bar>x\<bar>" 2 "\<lfloor>log 2 \<bar>x\<bar>\<rfloor>"] by simp
  also have "\<dots> = 2 powi (\<lfloor>log 2 \<bar>x\<bar>\<rfloor> + 1)"
    by (simp add: two_powi_powr)
  also have "\<dots> \<le> 2 powi (expo x + 1)"
    by (rule two_powi_mono) (simp add: expo_def)
  finally show ?thesis .
qed

lemma expo_lower:
  assumes "x \<noteq> 0" and "- 1022 < expo x"
  shows "2 powi expo x \<le> \<bar>x\<bar>"
proof -
  from assms(2) have e: "expo x = \<lfloor>log 2 \<bar>x\<bar>\<rfloor>"
    by (simp add: expo_def max_def split: if_splits)
  have "2 powr (of_int \<lfloor>log 2 \<bar>x\<bar>\<rfloor>) \<le> \<bar>x\<bar>"
    using assms(1) floor_log_eq_powr_iff [of "\<bar>x\<bar>" 2 "\<lfloor>log 2 \<bar>x\<bar>\<rfloor>"] by simp
  then show ?thesis
    by (simp add: e two_powi_powr)
qed

lemma expo_eqI:
  assumes "2 powi k \<le> \<bar>x\<bar>" and "\<bar>x\<bar> < 2 powi (k + 1)" and "- 1022 \<le> k"
  shows "expo x = k"
proof -
  from assms(1) have "0 < \<bar>x\<bar>"
    using two_powi_pos [of k] by linarith
  then have "\<lfloor>log 2 \<bar>x\<bar>\<rfloor> = k"
    using assms(1,2) floor_log_eq_powr_iff [of "\<bar>x\<bar>" 2 k] by (simp add: two_powi_powr)
  with assms(3) show ?thesis
    by (simp add: expo_def)
qed

lemma expo_subnormal:
  assumes "\<bar>x\<bar> < 2 powi (- 1022)" and "x \<noteq> 0"
  shows "expo x = - 1022"
proof -
  have "\<lfloor>log 2 \<bar>x\<bar>\<rfloor> < - 1022"
  proof (rule ccontr)
    assume "\<not> \<lfloor>log 2 \<bar>x\<bar>\<rfloor> < - 1022"
    then have "- 1022 \<le> \<lfloor>log 2 \<bar>x\<bar>\<rfloor>" by simp
    then have "2 powi (- 1022) \<le> (2::real) powi \<lfloor>log 2 \<bar>x\<bar>\<rfloor>"
      by (rule two_powi_mono)
    also have "\<dots> \<le> \<bar>x\<bar>"
      using assms(2) floor_log_eq_powr_iff [of "\<bar>x\<bar>" 2 "\<lfloor>log 2 \<bar>x\<bar>\<rfloor>"]
      by (simp add: two_powi_powr)
    finally show False using assms(1) by simp
  qed
  then show ?thesis
    by (simp add: expo_def)
qed

lemma expo_minus [simp]: "expo (- x) = expo x"
  by (simp add: expo_def)

lemma expo_mono:
  assumes "0 < \<bar>x\<bar>" and "\<bar>x\<bar> \<le> \<bar>y\<bar>"
  shows "expo x \<le> expo y"
proof -
  have "log 2 \<bar>x\<bar> \<le> log 2 \<bar>y\<bar>"
    using assms by simp
  then have "\<lfloor>log 2 \<bar>x\<bar>\<rfloor> \<le> \<lfloor>log 2 \<bar>y\<bar>\<rfloor>"
    by (rule floor_mono)
  then show ?thesis
    by (simp add: expo_def)
qed

lemma rnd_zero [simp]: "rnd 0 = 0"
  by (simp add: rnd_def)

lemma rnd_minus: "rnd (- x) = - rnd x"
  by (simp add: rnd_def rne_minus flip: minus_divide_left)

lemma two_powi_mult: "a + b = c \<Longrightarrow> (2::real) powi a * 2 powi b = 2 powi c"
  by (auto simp add: power_int_add)

lemma two_powi_div: "a - b = c \<Longrightarrow> (2::real) powi a / 2 powi b = 2 powi c"
  by (auto simp add: power_int_diff)

lemma rnd_pos:
  assumes "0 < x"
  shows "rnd x = of_int (rne (x / 2 powi (expo x - 52))) * 2 powi (expo x - 52)"
  using assms by (simp add: rnd_def)

lemma two_powi_53: "(2::real) powi 53 = of_int (2 ^ 53)"
  by (simp add: power_int_def)

lemma two_powi_52: "(2::real) powi 52 = of_int (2 ^ 52)"
  by (simp add: power_int_def)

lemma rnd_upper:
  assumes "0 < x"
  shows "rnd x \<le> 2 powi (expo x + 1)"
proof -
  let ?q = "(2::real) powi (expo x - 52)"
  have "x / ?q \<le> 2 powi (expo x + 1) / ?q"
    using expo_upper [of x] assms by (simp add: divide_right_mono)
  also have "\<dots> = 2 powi 53"
    by (rule two_powi_div) simp
  finally have "rne (x / ?q) \<le> rne (of_int (2 ^ 53))"
    unfolding two_powi_53 by (rule rne_mono)
  then have "(of_int (rne (x / ?q)) :: real) \<le> 2 powi 53"
    unfolding rne_of_int two_powi_53 by (simp only: of_int_le_iff)
  then have "of_int (rne (x / ?q)) * ?q \<le> 2 powi 53 * ?q"
    by (intro mult_right_mono) simp_all
  also have "\<dots> = 2 powi (expo x + 1)"
    by (rule two_powi_mult) simp
  finally show ?thesis
    unfolding rnd_pos [OF assms] .
qed

lemma rnd_lower:
  assumes "0 < x" and "2 powi expo x \<le> x"
  shows "2 powi expo x \<le> rnd x"
proof -
  let ?q = "(2::real) powi (expo x - 52)"
  have "2 powi 52 = 2 powi expo x / ?q"
    by (rule two_powi_div [symmetric]) simp
  also have "\<dots> \<le> x / ?q"
    using assms(2) by (simp add: divide_right_mono)
  finally have "rne (of_int (2 ^ 52)) \<le> rne (x / ?q)"
    unfolding two_powi_52 by (rule rne_mono)
  then have "(2::real) powi 52 \<le> of_int (rne (x / ?q))"
    unfolding rne_of_int two_powi_52 by (simp only: of_int_le_iff)
  then have "2 powi 52 * ?q \<le> of_int (rne (x / ?q)) * ?q"
    by (intro mult_right_mono) simp_all
  moreover have "2 powi 52 * ?q = 2 powi expo x"
    by (rule two_powi_mult) simp
  ultimately have "2 powi expo x \<le> of_int (rne (x / ?q)) * ?q"
    by (simp only:)
  then show ?thesis
    unfolding rnd_pos [OF assms(1)] .
qed

lemma rnd_nonneg:
  assumes "0 \<le> x"
  shows "0 \<le> rnd x"
proof (cases "x = 0")
  case False
  with assms have pos: "0 < x" by simp
  have "rne 0 \<le> rne (x / 2 powi (expo x - 52))"
    by (rule rne_mono) (use pos in simp)
  then have "0 \<le> rne (x / 2 powi (expo x - 52))"
    using rne_of_int [of 0] by simp
  then show ?thesis
    using pos by (simp add: rnd_pos)
qed simp

lemma rnd_mono_pos:
  assumes "0 < x" and "x \<le> y"
  shows "rnd x \<le> rnd y"
proof -
  from assms have ypos: "0 < y" by simp
  have le: "expo x \<le> expo y"
    by (rule expo_mono) (use assms in simp_all)
  show ?thesis
  proof (cases "expo x = expo y")
    case True
    let ?q = "(2::real) powi (expo y - 52)"
    have "x / ?q \<le> y / ?q"
      using assms(2) by (simp add: divide_right_mono)
    then have "rne (x / ?q) \<le> rne (y / ?q)"
      by (rule rne_mono)
    then have "(of_int (rne (x / ?q)) :: real) * ?q \<le> of_int (rne (y / ?q)) * ?q"
      by (simp add: mult_right_mono)
    then show ?thesis
      using assms(1) ypos True by (simp add: rnd_pos)
  next
    case False
    with le have lt: "expo x + 1 \<le> expo y" by simp
    with expo_ge [of x] have "- 1022 < expo y" by linarith
    with ypos have "2 powi expo y \<le> y"
      using expo_lower [of y] by simp
    with ypos have "2 powi expo y \<le> rnd y"
      by (rule rnd_lower)
    moreover have "rnd x \<le> 2 powi (expo x + 1)"
      using assms(1) by (rule rnd_upper)
    moreover have "(2::real) powi (expo x + 1) \<le> 2 powi expo y"
      using lt by (rule two_powi_mono)
    ultimately show ?thesis
      by linarith
  qed
qed

lemma rnd_mono:
  assumes "x \<le> y"
  shows "rnd x \<le> rnd y"
proof -
  consider "0 < x" | "x \<le> 0" "0 \<le> y" | "y < 0"
    using assms by linarith
  then show ?thesis
  proof cases
    case 1
    then show ?thesis using assms by (rule rnd_mono_pos)
  next
    case 2
    have "rnd x \<le> 0"
      using rnd_nonneg [of "- x"] 2(1) by (simp add: rnd_minus)
    moreover have "0 \<le> rnd y"
      using 2(2) by (rule rnd_nonneg)
    ultimately show ?thesis by simp
  next
    case 3
    then have "rnd (- y) \<le> rnd (- x)"
      using assms by (intro rnd_mono_pos) simp_all
    then show ?thesis
      by (simp add: rnd_minus)
  qed
qed

lemma rnd_grid:
  assumes "\<bar>m\<bar> < 2 ^ 53" and "- 1074 \<le> e"
  shows "rnd (of_int m * 2 powi e) = of_int m * 2 powi e"
proof (cases "m = 0")
  case False
  let ?x = "of_int m * (2::real) powi e"
  have x0: "?x \<noteq> 0"
    using False by simp
  have "\<bar>?x\<bar> = of_int \<bar>m\<bar> * 2 powi e"
    by (simp add: abs_mult)
  also have "\<dots> < of_int (2 ^ 53) * 2 powi e"
    using assms(1) by (intro mult_strict_right_mono) (simp_all only: of_int_less_iff two_powi_pos)
  also have "\<dots> = 2 powi (e + 53)"
    unfolding two_powi_53 [symmetric] by (rule two_powi_mult) simp
  finally have ub: "\<bar>?x\<bar> < 2 powi (e + 53)" .
  have "expo ?x \<le> e + 52"
  proof (rule ccontr)
    assume "\<not> expo ?x \<le> e + 52"
    then have big: "e + 53 \<le> expo ?x" by simp
    with assms(2) have "- 1022 < expo ?x" by linarith
    from expo_lower [OF x0 this] have "2 powi expo ?x \<le> \<bar>?x\<bar>" .
    moreover have "(2::real) powi (e + 53) \<le> 2 powi expo ?x"
      using big by (rule two_powi_mono)
    ultimately show False
      using ub by linarith
  qed
  then obtain d where d: "e = expo ?x - 52 + int d"
    by (metis add.commute diff_le_eq zle_iff_zadd)
  have "2 powi e / (2::real) powi (expo ?x - 52) = 2 powi (int d)"
    by (rule two_powi_div) (use d in simp)
  then have "?x / 2 powi (expo ?x - 52) = of_int m * 2 powi (int d)"
    by (metis times_divide_eq_right)
  also have "\<dots> = of_int (m * 2 ^ d)"
    by (simp add: power_int_def)
  finally have "rne (?x / 2 powi (expo ?x - 52)) = m * 2 ^ d"
    by (simp only: rne_of_int)
  then have "rnd ?x = of_int (m * 2 ^ d) * 2 powi (expo ?x - 52)"
    using x0 by (simp add: rnd_def)
  also have "\<dots> = of_int m * (2 powi (int d) * 2 powi (expo ?x - 52))"
    by (simp add: power_int_def)
  also have "2 powi (int d) * (2::real) powi (expo ?x - 52) = 2 powi e"
    by (rule two_powi_mult) (use d in simp)
  finally show ?thesis .
qed simp

lemma rnd_of_int: "\<bar>k\<bar> < 2 ^ 53 \<Longrightarrow> rnd (of_int k) = of_int k"
  using rnd_grid [of k 0] by simp

lemma rnd_numeral [simp]: "numeral n < (2::int) ^ 53 \<Longrightarrow> rnd (numeral n) = numeral n"
  using rnd_of_int [of "numeral n"] by simp

lemma rnd_one [simp]: "rnd 1 = 1"
  using rnd_of_int [of 1] by simp

lemma fl_nonneg:
  assumes "0 \<le> x" and "rnd x < 2 ^ 1024"
  shows "fl x = Fin (rnd x)"
  using assms rnd_nonneg [OF assms(1)] by (simp add: fl_def Let_def signed_zero_def)

lemma fl_small:
  assumes "0 \<le> x" and "x \<le> u" and "rnd u = u" and "u < 2 ^ 1024"
  shows "fl x = Fin (rnd x)" and "0 \<le> rnd x" and "rnd x \<le> u"
proof -
  show le: "rnd x \<le> u"
    using rnd_mono [OF assms(2)] assms(3) by simp
  show "0 \<le> rnd x"
    using assms(1) by (rule rnd_nonneg)
  from le assms(4) have "rnd x < 2 ^ 1024"
    by linarith
  with assms(1) show "fl x = Fin (rnd x)"
    by (rule fl_nonneg)
qed

lemma fadd_finite:
  assumes "finite_num a" "finite_num b" "b \<noteq> NegZero"
    and "0 \<le> val a + val b" "val a + val b \<le> u" "rnd u = u" "u < 2 ^ 1024"
  shows "fadd a b = Fin (rnd (val a + val b))"
proof -
  have "fadd a b = fl (val a + val b)"
    using assms(1-3) by (cases a; cases b; simp add: fadd_def)
  with fl_small(1) [OF assms(4-7)] show ?thesis
    by simp
qed

lemma fsub_finite:
  assumes "finite_num b" "0 \<le> a - val b" "a - val b \<le> u" "rnd u = u" "u < 2 ^ 1024"
  shows "fsub (Fin a) b = Fin (rnd (a - val b))"
proof -
  have "fsub (Fin a) b = fl (a - val b)"
    using assms(1) by (cases b) (simp_all add: fsub_def fadd_def)
  with fl_small(1) [OF assms(2-5)] show ?thesis
    by simp
qed

lemma fmul_small:
  assumes "0 \<le> a" "0 \<le> c" "a * c \<le> u" "rnd u = u" "u < 2 ^ 1024"
  shows "fmul (Fin a) (Fin c) = Fin (rnd (a * c))"
proof -
  have "0 \<le> a * c"
    using assms(1,2) by simp
  from fl_small(1) [OF this assms(3-5)] assms(1,2) show ?thesis
    by (auto simp add: fmul_def signed_zero_def)
qed

lemma fdiv_small:
  assumes "0 < a" "0 < c" "a / c \<le> u" "rnd u = u" "u < 2 ^ 1024"
  shows "fdiv (Fin a) (Fin c) = Fin (rnd (a / c))"
proof -
  have "0 \<le> a / c"
    using assms(1,2) by simp
  from fl_small(1) [OF this assms(3-5)] show ?thesis
    using assms(1,2) by (simp add: fdiv_def)
qed

subsection \<open>Projector\<close>

lemma projectD_in_range:
  assumes "finite_num lon" "finite_num lat"
    and "- 180 \<le> val lon" "val lon \<le> 180" "- 90 \<le> val lat" "val lat \<le> 90"
  shows "projectD (lon, lat) =
           (Fin (rnd (rnd (val lon + 180) * rnd (800 / 360))),
            Fin (rnd (rnd (90 - val lat) * rnd (400 / 180))))"
proof -
  have cx: "fdiv (Fin 800) (Fin 360) = Fin (rnd (800 / 360))"
    by (rule fdiv_small [where u = 3]) simp_all
  have cy: "fdiv (Fin 400) (Fin 180) = Fin (rnd (400 / 180))"
    by (rule fdiv_small [where u = 3]) simp_all
  have cxb: "0 \<le> rnd (800 / 360)" "rnd (800 / 360) \<le> 3"
    using fl_small(2,3) [of "800 / 360" 3] by simp_all
  have cyb: "0 \<le> rnd (400 / 180)" "rnd (400 / 180) \<le> 3"
    using fl_small(2,3) [of "400 / 180" 3] by simp_all
  have a: "fadd lon (Fin 180) = Fin (rnd (val lon + 180))"
    using fadd_finite [of lon "Fin 180" 360] assms by simp
  have ab: "0 \<le> rnd (val lon + 180)" "rnd (val lon + 180) \<le> 360"
    using fl_small(2,3) [of "val lon + 180" 360] assms by simp_all
  have b: "fsub (Fin 90) lat = Fin (rnd (90 - val lat))"
    using fsub_finite [of lat 90 180] assms by simp
  have bb: "0 \<le> rnd (90 - val lat)" "rnd (90 - val lat) \<le> 180"
    using fl_small(2,3) [of "90 - val lat" 180] assms by simp_all
  have "rnd (val lon + 180) * rnd (800 / 360) \<le> 360 * 3"
    using ab cxb by (intro mult_mono) simp_all
  then have x: "fmul (Fin (rnd (val lon + 180))) (Fin (rnd (800 / 360))) =
      Fin (rnd (rnd (val lon + 180) * rnd (800 / 360)))"
    using ab cxb by (intro fmul_small [where u = 1080]) simp_all
  have "rnd (90 - val lat) * rnd (400 / 180) \<le> 180 * 3"
    using bb cyb by (intro mult_mono) simp_all
  then have y: "fmul (Fin (rnd (90 - val lat))) (Fin (rnd (400 / 180))) =
      Fin (rnd (rnd (90 - val lat) * rnd (400 / 180)))"
    using bb cyb by (intro fmul_small [where u = 540]) simp_all
  show ?thesis
    unfolding projectD_def Let_def fst_conv snd_conv a b cx cy x y ..
qed

lemma rne_eqI:
  assumes "\<bar>x - of_int n\<bar> < 1 / 2"
  shows "rne x = n"
proof (cases "of_int n \<le> x")
  case True
  with assms have "\<lfloor>x\<rfloor> = n"
    by linarith
  with assms True show ?thesis
    by (simp add: rne_def Let_def)
next
  case False
  with assms have "\<lfloor>x\<rfloor> = n - 1"
    by linarith
  with assms False show ?thesis
    by (simp add: rne_def Let_def)
qed

lemma rnd_eqI:
  assumes "2 powi k \<le> \<bar>x\<bar>" and "\<bar>x\<bar> < 2 powi (k + 1)" and "- 1022 \<le> k"
    and "rne (x / 2 powi (k - 52)) = n"
  shows "rnd x = of_int n * 2 powi (k - 52)"
proof -
  have "0 < \<bar>x\<bar>"
    using assms(1) two_powi_pos [of k] by linarith
  then have "x \<noteq> 0"
    by simp
  moreover have "expo x = k"
    using assms(1-3) by (rule expo_eqI)
  ultimately show ?thesis
    using assms(4) by (simp add: rnd_def)
qed

lemma rnd_280: "rnd (280 + 1 / 2 ^ 46) = 280"
proof -
  have "rne ((280 + 1 / 2 ^ 46) / 2 powi (8 - 52)) = 280 * 2 ^ 44"
    by (rule rne_eqI) (simp_all add: power_int_minus field_simps)
  then have "rnd (280 + 1 / 2 ^ 46) = of_int (280 * 2 ^ 44) * 2 powi (8 - 52)"
    by (intro rnd_eqI) simp_all
  then show ?thesis
    by (simp add: power_int_minus field_simps)
qed

lemma rnd_80: "rnd (80 - 1 / 2 ^ 49) = 80"
proof -
  have "rne ((80 - 1 / 2 ^ 49) / 2 powi (6 - 52)) = 80 * 2 ^ 46"
    by (rule rne_eqI) (simp_all add: power_int_minus field_simps)
  then have "rnd (80 - 1 / 2 ^ 49) = of_int (80 * 2 ^ 46) * 2 powi (6 - 52)"
    by (intro rnd_eqI) simp_all
  then show ?thesis
    by (simp add: power_int_minus field_simps)
qed

lemma fl_grid:
  assumes "0 < m" "m < 2 ^ 53" "- 1074 \<le> e" "of_int m * 2 powi e < (2::real) ^ 1024"
  shows "fl (of_int m * 2 powi e) = Fin (of_int m * 2 powi e)"
proof -
  have "rnd (of_int m * 2 powi e) = of_int m * 2 powi e"
    using assms by (intro rnd_grid) simp_all
  moreover have "0 < of_int m * (2::real) powi e"
    using assms(1) by simp
  ultimately show ?thesis
    using assms(4) by (simp add: fl_def Let_def signed_zero_def)
qed

lemma fl_100: "fl (100 + 1 / 2 ^ 46) = Fin (100 + 1 / 2 ^ 46)"
proof -
  have eq: "(100 + 1 / 2 ^ 46 :: real) = of_int (100 * 2 ^ 46 + 1) * 2 powi (- 46)"
    by (simp add: power_int_minus field_simps)
  show ?thesis
    unfolding eq by (rule fl_grid) (simp_all add: power_int_minus field_simps)
qed

lemma fl_10: "fl (10 + 1 / 2 ^ 49) = Fin (10 + 1 / 2 ^ 49)"
proof -
  have eq: "(10 + 1 / 2 ^ 49 :: real) = of_int (10 * 2 ^ 49 + 1) * 2 powi (- 49)"
    by (simp add: power_int_minus field_simps)
  show ?thesis
    unfolding eq by (rule fl_grid) (simp_all add: power_int_minus field_simps)
qed

text \<open>
  C3, the inputs that refute strict monotonicity. The longitudes \<open>100\<close> and
  \<open>100 + 2\<^sup>-\<^sup>4\<^sup>6\<close> are different doubles in the valid range, and \<open>project\<close> maps them to the
  same \<open>x\<close>: the sum with 180 lies in \<open>[256, 512)\<close>, where doubles are \<open>2\<^sup>-\<^sup>4\<^sup>4\<close> apart, so both
  sums round to 280. Likewise the latitudes \<open>10\<close> and \<open>10 + 2\<^sup>-\<^sup>4\<^sup>9\<close> are mapped to the same
  \<open>y\<close>.
\<close>

theorem project_not_strictly_monotone:
  "fl (100 + 1 / 2 ^ 46) = Fin (100 + 1 / 2 ^ 46)
   \<and> (100::real) < 100 + 1 / 2 ^ 46
   \<and> fst (projectD (Fin 100, Fin 10)) = fst (projectD (Fin (100 + 1 / 2 ^ 46), Fin 10))
   \<and> fl (10 + 1 / 2 ^ 49) = Fin (10 + 1 / 2 ^ 49)
   \<and> (10::real) < 10 + 1 / 2 ^ 49
   \<and> snd (projectD (Fin 100, Fin 10)) = snd (projectD (Fin 100, Fin (10 + 1 / 2 ^ 49)))"
proof -
  have a: "rnd (100 + 1 / 2 ^ 46 + 180) = rnd (100 + 180)"
    using rnd_280 by (simp add: add.commute add.left_commute)
  have b: "rnd (90 - (10 + 1 / 2 ^ 49)) = rnd (90 - 10)"
    using rnd_80 by simp
  have p0: "projectD (Fin 100, Fin 10) =
      (Fin (rnd (rnd (100 + 180) * rnd (800 / 360))), Fin (rnd (rnd (90 - 10) * rnd (400 / 180))))"
    using projectD_in_range [of "Fin 100" "Fin 10"] by simp
  have p1: "projectD (Fin (100 + 1 / 2 ^ 46), Fin 10) =
      (Fin (rnd (rnd (100 + 1 / 2 ^ 46 + 180) * rnd (800 / 360))),
       Fin (rnd (rnd (90 - 10) * rnd (400 / 180))))"
    using projectD_in_range [of "Fin (100 + 1 / 2 ^ 46)" "Fin 10"] by simp
  have p2: "projectD (Fin 100, Fin (10 + 1 / 2 ^ 49)) =
      (Fin (rnd (rnd (100 + 180) * rnd (800 / 360))),
       Fin (rnd (rnd (90 - (10 + 1 / 2 ^ 49)) * rnd (400 / 180))))"
    using projectD_in_range [of "Fin 100" "Fin (10 + 1 / 2 ^ 49)"] by simp
  show ?thesis
    unfolding p0 p1 p2 a b using fl_100 fl_10 by simp
qed

lemma projectD_monotone:
  assumes "finite_num lon" "finite_num lat" "finite_num lon'" "finite_num lat'"
    and "- 180 \<le> val lon" "val lon \<le> 180" "- 90 \<le> val lat" "val lat \<le> 90"
    and "- 180 \<le> val lon'" "val lon' \<le> 180" "- 90 \<le> val lat'" "val lat' \<le> 90"
  shows "val lon \<le> val lon' \<Longrightarrow> jge (fst (projectD (lon', lat'))) (fst (projectD (lon, lat)))"
    and "val lat \<le> val lat' \<Longrightarrow> jge (snd (projectD (lon, lat))) (snd (projectD (lon', lat')))"
proof -
  note p = projectD_in_range [OF assms(1,2,5-8)]
  note p' = projectD_in_range [OF assms(3,4,9-12)]
  have c: "0 \<le> rnd (800 / 360)" "0 \<le> rnd (400 / 180)"
    by (rule rnd_nonneg, simp)+
  show "jge (fst (projectD (lon', lat'))) (fst (projectD (lon, lat)))" if "val lon \<le> val lon'"
  proof -
    from that have "rnd (val lon + 180) \<le> rnd (val lon' + 180)"
      by (intro rnd_mono) simp
    then have "rnd (val lon + 180) * rnd (800 / 360) \<le> rnd (val lon' + 180) * rnd (800 / 360)"
      using c(1) by (rule mult_right_mono)
    then have "rnd (rnd (val lon + 180) * rnd (800 / 360))
        \<le> rnd (rnd (val lon' + 180) * rnd (800 / 360))"
      by (rule rnd_mono)
    then show ?thesis
      unfolding p p' by (simp add: jge_def)
  qed
  show "jge (snd (projectD (lon, lat))) (snd (projectD (lon', lat')))" if "val lat \<le> val lat'"
  proof -
    from that have "rnd (90 - val lat') \<le> rnd (90 - val lat)"
      by (intro rnd_mono) simp
    then have "rnd (90 - val lat') * rnd (400 / 180) \<le> rnd (90 - val lat) * rnd (400 / 180)"
      using c(2) by (rule mult_right_mono)
    then have "rnd (rnd (90 - val lat') * rnd (400 / 180))
        \<le> rnd (rnd (90 - val lat) * rnd (400 / 180))"
      by (rule rnd_mono)
    then show ?thesis
      unfolding p p' by (simp add: jge_def)
  qed
qed

text \<open>
  C3, as it holds of the code. For every \<open>(lon, lat)\<close>, \<open>project\<close> returns
  \<open>x = (lon + 180) * (W / 360)\<close> and \<open>y = (90 - lat) * (H / 180)\<close> with \<open>W = 800\<close> and
  \<open>H = 400\<close>, every operation in double arithmetic; for finite coordinates in the valid
  ranges (longitude in \<open>[-180, 180]\<close>, latitude in \<open>[-90, 90]\<close>) this is the exact formula
  with each of its three operations rounded to the nearest double. Hence for coordinates
  in the valid ranges \<open>x\<close> is non-decreasing in the longitude and \<open>y\<close> is non-increasing in
  the latitude: a larger longitude never gives a smaller \<open>x\<close>, and a larger latitude never
  gives a larger \<open>y\<close>.
\<close>

theorem project_rounded_monotone:
  "projectD (lon, lat) =
     (fmul (fadd lon (Fin 180)) (fdiv (Fin 800) (Fin 360)),
      fmul (fsub (Fin 90) lat) (fdiv (Fin 400) (Fin 180)))
   \<and> (finite_num lon \<and> finite_num lat \<and> finite_num lon' \<and> finite_num lat'
        \<and> - 180 \<le> val lon \<and> val lon \<le> 180 \<and> - 90 \<le> val lat \<and> val lat \<le> 90
        \<and> - 180 \<le> val lon' \<and> val lon' \<le> 180 \<and> - 90 \<le> val lat' \<and> val lat' \<le> 90
      \<longrightarrow> projectD (lon, lat) =
            (Fin (rnd (rnd (val lon + 180) * rnd (800 / 360))),
             Fin (rnd (rnd (90 - val lat) * rnd (400 / 180))))
          \<and> (val lon \<le> val lon'
              \<longrightarrow> jge (fst (projectD (lon', lat'))) (fst (projectD (lon, lat))))
          \<and> (val lat \<le> val lat'
              \<longrightarrow> jge (snd (projectD (lon, lat))) (snd (projectD (lon', lat')))))"
  using projectD_in_range [of lon lat] projectD_monotone [of lon lat lon' lat']
  by (simp add: projectD_def Let_def)

theorem project_rounded_monotone_witness:
  "finite_num (Fin (- 120)) \<and> finite_num (Fin (- 20)) \<and> finite_num (Fin 120)
   \<and> finite_num (Fin 60) \<and> (- 120 :: real) \<le> 120 \<and> (- 20 :: real) \<le> 60
   \<and> projectD (Fin (- 120), Fin (- 20)) =
       (Fin (rnd (rnd (- 120 + 180) * rnd (800 / 360))),
        Fin (rnd (rnd (90 - (- 20)) * rnd (400 / 180))))
   \<and> jge (fst (projectD (Fin 120, Fin 60))) (fst (projectD (Fin (- 120), Fin (- 20))))
   \<and> jge (snd (projectD (Fin (- 120), Fin (- 20)))) (snd (projectD (Fin 120, Fin 60)))"
proof -
  note inst = project_rounded_monotone [of "Fin (- 120)" "Fin (- 20)" "Fin 120" "Fin 60",
      THEN conjunct2, rule_format]
  have pre: "finite_num (Fin (- 120)) \<and> finite_num (Fin (- 20)) \<and> finite_num (Fin 120)
      \<and> finite_num (Fin 60)
      \<and> - 180 \<le> val (Fin (- 120)) \<and> val (Fin (- 120)) \<le> 180
      \<and> - 90 \<le> val (Fin (- 20)) \<and> val (Fin (- 20)) \<le> 90
      \<and> - 180 \<le> val (Fin 120) \<and> val (Fin 120) \<le> 180
      \<and> - 90 \<le> val (Fin 60) \<and> val (Fin 60) \<le> 90"
    by simp
  note r = inst [OF pre]
  have eq: "projectD (Fin (- 120), Fin (- 20)) =
       (Fin (rnd (rnd (- 120 + 180) * rnd (800 / 360))),
        Fin (rnd (rnd (90 - (- 20)) * rnd (400 / 180))))"
    using r [THEN conjunct1] by simp
  have mx: "jge (fst (projectD (Fin 120, Fin 60))) (fst (projectD (Fin (- 120), Fin (- 20))))"
    using r [THEN conjunct2, THEN conjunct1] by simp
  have my: "jge (snd (projectD (Fin (- 120), Fin (- 20)))) (snd (projectD (Fin 120, Fin 60)))"
    using r [THEN conjunct2, THEN conjunct2] by simp
  have "finite_num (Fin (- 120)) \<and> finite_num (Fin (- 20)) \<and> finite_num (Fin 120)
      \<and> finite_num (Fin 60) \<and> (- 120 :: real) \<le> 120 \<and> (- 20 :: real) \<le> 60"
    by simp
  with eq mx my show ?thesis
    by blast
qed

subsection \<open>The scale stays in its range unless it is \<^verbatim>\<open>NaN\<close>\<close>

lemma fl_not_nan [simp]: "\<not> is_nan (fl x)"
  by (simp add: fl_def Let_def infinity_def signed_zero_def)

lemma fl_neq_NaN [simp]: "fl x \<noteq> NaN"
  using fl_not_nan [of x] by (cases "fl x") simp_all

lemma is_nan_iff: "is_nan a \<longleftrightarrow> a = NaN"
  by (cases a) simp_all




















lemma fl_zero [simp]: "fl 0 = Fin 0"
  by (simp add: fl_def signed_zero_def)

lemma fl_one [simp]: "fl 1 = Fin 1"
  by (simp add: fl_def)

lemma fl_of_int:
  assumes "\<bar>k\<bar> < 2 ^ 53" "k \<noteq> 0"
  shows "fl (of_int k) = Fin (of_int k)"
proof -
  have "\<bar>of_int k :: real\<bar> < of_int (2 ^ 53)"
    using assms(1) unfolding of_int_abs [symmetric] of_int_less_iff .
  also have "(of_int (2 ^ 53) :: real) \<le> 2 ^ 1024"
    by simp
  finally have "\<not> 2 ^ 1024 \<le> \<bar>of_int k :: real\<bar>"
    by simp
  then show ?thesis
    using assms(2) by (simp add: fl_def Let_def rnd_of_int [OF assms(1)])
qed

lemma fl_numeral [simp]: "numeral n < (2::int) ^ 53 \<Longrightarrow> fl (numeral n) = Fin (numeral n)"
  using fl_of_int [of "numeral n"] by simp

lemma fl_neg_numeral [simp]:
  "numeral n < (2::int) ^ 53 \<Longrightarrow> fl (- numeral n) = Fin (- numeral n)"
  using fl_of_int [of "- numeral n"] by simp

lemma fadd_Fin: "fadd (Fin a) (Fin b) = fl (a + b)"
  by (simp add: fadd_def)



lemma fdiv_Fin: "a \<noteq> 0 \<Longrightarrow> b \<noteq> 0 \<Longrightarrow> fdiv (Fin a) (Fin b) = fl (a / b)"
  by (simp add: fdiv_def)

lemma scale_in_rangeI: "v = Fin r \<Longrightarrow> 1 \<le> r \<Longrightarrow> r \<le> 20 \<Longrightarrow> scale_in_range v"
  by (simp add: scale_in_range_def)

































subsection \<open>Fallback hint\<close>

lemma Math_min_finite:
  assumes "finite_num a" "finite_num b"
  shows "finite_num (Math_min a b) \<and> val (Math_min a b) = min (val a) (val b)"
  using assms by (cases a; cases b) (auto simp add: Math_min_def)

lemma Math_max_finite:
  assumes "finite_num a" "finite_num b"
  shows "finite_num (Math_max a b) \<and> val (Math_max a b) = max (val a) (val b)"
  using assms by (cases a; cases b) (auto simp add: Math_max_def)

lemma Math_min_PosInf: "finite_num b \<Longrightarrow> Math_min PosInf b = b"
  by (cases b) (simp_all add: Math_min_def)

lemma Math_max_NegInf: "finite_num b \<Longrightarrow> Math_max NegInf b = b"
  by (cases b) (simp_all add: Math_max_def)

lemma fold_Math_min:
  assumes "list_all finite_num xs" "finite_num m"
  shows "finite_num (fold (\<lambda>x m. Math_min m x) xs m)
         \<and> val (fold (\<lambda>x m. Math_min m x) xs m) = fold min (map val xs) (val m)"
  using assms
proof (induction xs arbitrary: m)
  case Nil
  then show ?case by simp
next
  case (Cons x xs)
  from Cons.prems have x: "finite_num x" "list_all finite_num xs"
    by simp_all
  from Math_min_finite [OF Cons.prems(2) x(1)] Cons.IH [OF x(2), of "Math_min m x"]
  show ?case
    by (simp add: min.commute)
qed

lemma fold_Math_max:
  assumes "list_all finite_num xs" "finite_num m"
  shows "finite_num (fold (\<lambda>x m. Math_max m x) xs m)
         \<and> val (fold (\<lambda>x m. Math_max m x) xs m) = fold max (map val xs) (val m)"
  using assms
proof (induction xs arbitrary: m)
  case Nil
  then show ?case by simp
next
  case (Cons x xs)
  from Cons.prems have x: "finite_num x" "list_all finite_num xs"
    by simp_all
  from Math_max_finite [OF Cons.prems(2) x(1)] Cons.IH [OF x(2), of "Math_max m x"]
  show ?case
    by (simp add: max.commute)
qed

lemma fold_extent_stepD:
  "minLat (fold extent_stepD ps e) = fold (\<lambda>x m. Math_min m x) (map snd ps) (minLat e)"
  "maxLat (fold extent_stepD ps e) = fold (\<lambda>x m. Math_max m x) (map snd ps) (maxLat e)"
  "minLon (fold extent_stepD ps e) = fold (\<lambda>x m. Math_min m x) (map fst ps) (minLon e)"
  "maxLon (fold extent_stepD ps e) = fold (\<lambda>x m. Math_max m x) (map fst ps) (maxLon e)"
  by (induction ps arbitrary: e; simp add: extent_stepD_def split_def)+

lemma smallest_of_list:
  assumes "list_all finite_num (x # xs)"
  shows "finite_num (fold (\<lambda>x m. Math_min m x) (x # xs) PosInf)
         \<and> val (fold (\<lambda>x m. Math_min m x) (x # xs) PosInf) = Min (val ` set (x # xs))"
proof -
  from assms have x: "finite_num x" "list_all finite_num xs"
    by simp_all
  have "Min (val ` set (x # xs)) = fold min (map val xs) (val x)"
    using Min.set_eq_fold [of "val x" "map val xs"] by simp
  with fold_Math_min [OF x(2,1)] show ?thesis
    by (simp add: Math_min_PosInf [OF x(1)])
qed

lemma largest_of_list:
  assumes "list_all finite_num (x # xs)"
  shows "finite_num (fold (\<lambda>x m. Math_max m x) (x # xs) NegInf)
         \<and> val (fold (\<lambda>x m. Math_max m x) (x # xs) NegInf) = Max (val ` set (x # xs))"
proof -
  from assms have x: "finite_num x" "list_all finite_num xs"
    by simp_all
  have "Max (val ` set (x # xs)) = fold max (map val xs) (val x)"
    using Max.set_eq_fold [of "val x" "map val xs"] by simp
  with fold_Math_max [OF x(2,1)] show ?thesis
    by (simp add: Math_max_NegInf [OF x(1)])
qed

lemma extentD_of_points:
  fixes points :: "(jsnum \<times> jsnum) list"
  defines "e \<equiv> fold extent_stepD points
                 \<lparr>minLat = PosInf, maxLat = NegInf, minLon = PosInf, maxLon = NegInf\<rparr>"
  assumes "points \<noteq> []" "\<forall>p \<in> set points. finite_num (fst p) \<and> finite_num (snd p)"
  shows "finite_num (minLat e) \<and> val (minLat e) = Min (val ` snd ` set points)"
    and "finite_num (maxLat e) \<and> val (maxLat e) = Max (val ` snd ` set points)"
    and "finite_num (minLon e) \<and> val (minLon e) = Min (val ` fst ` set points)"
    and "finite_num (maxLon e) \<and> val (maxLon e) = Max (val ` fst ` set points)"
proof -
  from assms(2) obtain p ps where pts: "points = p # ps"
    by (cases points) auto
  have lat: "list_all finite_num (snd p # map snd ps)"
    and lon: "list_all finite_num (fst p # map fst ps)"
    using assms(3) unfolding pts by (simp_all add: list_all_iff)
  have img: "val ` snd ` set points = val ` set (snd p # map snd ps)"
    "val ` fst ` set points = val ` set (fst p # map fst ps)"
    unfolding pts by simp_all
  show "finite_num (minLat e) \<and> val (minLat e) = Min (val ` snd ` set points)"
    unfolding e_def fold_extent_stepD img using smallest_of_list [OF lat]
    by (simp add: pts)
  show "finite_num (maxLat e) \<and> val (maxLat e) = Max (val ` snd ` set points)"
    unfolding e_def fold_extent_stepD img using largest_of_list [OF lat]
    by (simp add: pts)
  show "finite_num (minLon e) \<and> val (minLon e) = Min (val ` fst ` set points)"
    unfolding e_def fold_extent_stepD img using smallest_of_list [OF lon]
    by (simp add: pts)
  show "finite_num (maxLon e) \<and> val (maxLon e) = Max (val ` fst ` set points)"
    unfolding e_def fold_extent_stepD img using largest_of_list [OF lon]
    by (simp add: pts)
qed

lemma rnd_sign:
  "y < 0 \<Longrightarrow> rnd y \<le> 0" "0 \<le> y \<Longrightarrow> 0 \<le> rnd y"
  using rnd_nonneg [of "- y"] rnd_nonneg [of y] by (simp_all add: rnd_minus)

lemma jge_fl_zero: "jge (fl y) (Fin 0) \<longleftrightarrow> 0 \<le> rnd y"
proof (cases "y < 0")
  case True
  from rnd_sign(1) [OF True] show ?thesis
    using True by (auto simp add: fl_def Let_def infinity_def signed_zero_def jge_def)
next
  case False
  then have "0 \<le> rnd y"
    by (intro rnd_sign(2)) simp
  then show ?thesis
    using False by (auto simp add: fl_def Let_def infinity_def signed_zero_def jge_def)
qed

lemma center_fl: "jge (fdiv (fl x) (Fin 2)) (Fin 0) \<longleftrightarrow> 0 \<le> rnd (rnd x / 2)"
proof -
  define r where "r = rnd x"
  consider (overflow) "2 ^ 1024 \<le> \<bar>r\<bar>" | (zero) "r = 0" | (fin) "r \<noteq> 0" "\<not> 2 ^ 1024 \<le> \<bar>r\<bar>"
    by blast
  then show ?thesis
  proof cases
    case overflow
    show ?thesis
    proof (cases "x < 0")
      case True
      with rnd_sign(1) [of x] overflow have "r \<le> - (2 ^ 1024)"
        unfolding r_def by linarith
      then have "r / 2 \<le> - (2 ^ 1023)"
        by simp
      from rnd_mono [OF this] have "rnd (r / 2) \<le> - (2 ^ 1023)"
        using rnd_grid [of "- 1" 1023] by simp
      then have "\<not> 0 \<le> rnd (r / 2)"
        by simp
      moreover have "fl x = NegInf"
        using overflow True by (simp add: fl_def Let_def infinity_def r_def)
      ultimately show ?thesis
        unfolding r_def by (simp add: fdiv_def infinity_def jge_def)
    next
      case False
      then have "0 \<le> r"
        unfolding r_def by (intro rnd_sign(2)) simp
      then have "0 \<le> rnd (r / 2)"
        by (intro rnd_sign(2)) simp
      moreover have "fl x = PosInf"
        using overflow False by (simp add: fl_def Let_def infinity_def r_def)
      ultimately show ?thesis
        unfolding r_def by (simp add: fdiv_def infinity_def jge_def)
    qed
  next
    case zero
    then have "is_zero (fl x)"
      by (simp add: fl_def Let_def signed_zero_def r_def)
    then have "jge (fdiv (fl x) (Fin 2)) (Fin 0)"
      by (cases "fl x") (simp_all add: fdiv_def signed_zero_def jge_def)
    then show ?thesis
      using zero unfolding r_def by simp
  next
    case fin
    then have "fl x = Fin r"
      by (simp add: fl_def Let_def r_def)
    then show ?thesis
      using fin(1) jge_fl_zero [of "r / 2"] unfolding r_def by (simp add: fdiv_Fin)
  qed
qed

lemma center_label:
  assumes "finite_num a" "finite_num b"
  shows "jge (fdiv (fadd a b) (Fin 2)) (Fin 0) \<longleftrightarrow> 0 \<le> rnd (rnd (val a + val b) / 2)"
proof -
  have "fadd a b = NegZero \<and> val a + val b = 0 \<or> fadd a b = fl (val a + val b)"
    using assms by (cases a; cases b) (simp_all add: fadd_def)
  then show ?thesis
  proof
    assume "fadd a b = NegZero \<and> val a + val b = 0"
    then show ?thesis
      by (simp add: fdiv_def signed_zero_def jge_def)
  next
    assume "fadd a b = fl (val a + val b)"
    then show ?thesis
      by (simp add: center_fl)
  qed
qed

lemma extent_difference:
  assumes "bounded_coord a" "bounded_coord b" "val a \<le> val b"
  shows "finite_num (fsub b a) \<and> val (fsub b a) = rnd (val b - val a)
         \<and> 0 \<le> rnd (val b - val a)"
proof -
  define M :: real where "M = 2 ^ 1022"
  have u: "rnd (2 * M) = 2 * M" "2 * M < 2 ^ 1024"
    unfolding M_def using rnd_grid [of 1 1023] by simp_all
  have "\<bar>val a\<bar> \<le> M" "\<bar>val b\<bar> \<le> M"
    using assms(1,2) unfolding M_def bounded_coord_def by blast+
  then have x: "0 \<le> val b - val a" "val b - val a \<le> 2 * M"
    using assms(3) by linarith+
  note fl = fl_small [OF x u]
  have "fsub b a = NegZero \<and> val b - val a = 0 \<or> fsub b a = fl (val b - val a)"
    using assms(1,2) unfolding bounded_coord_def
    by (cases a; cases b) (simp_all add: fsub_def fadd_def)
  then show ?thesis
    using fl by auto
qed

lemma size_label:
  assumes "finite_num d1" "finite_num d2" "0 \<le> val d1" "0 \<le> val d2"
    and "0 < t" "t < 2 ^ 1024"
  shows "jlt (Math_abs (fmul d1 d2)) (Fin t) \<longleftrightarrow> rnd (val d1 * val d2) < t"
proof (cases "is_zero d1 \<or> is_zero d2")
  case True
  then have "val d1 * val d2 = 0"
    by (cases d1; cases d2) auto
  then have "rnd (val d1 * val d2) = 0"
    by (simp only: rnd_zero)
  moreover have "is_zero (fmul d1 d2)"
    using True assms(1,2) by (cases d1; cases d2) (auto simp add: fmul_def signed_zero_def)
  then have "Math_abs (fmul d1 d2) = Fin 0"
    by (cases "fmul d1 d2") simp_all
  ultimately show ?thesis
    using assms(5) by simp
next
  case False
  then have eq: "fmul d1 d2 = fl (val d1 * val d2)"
    using assms(1,2) by (cases d1; cases d2) (simp_all add: fmul_def)
  have nonneg: "0 \<le> val d1 * val d2"
    using assms(3,4) by simp
  then have r: "0 \<le> rnd (val d1 * val d2)"
    by (rule rnd_sign(2))
  show ?thesis
  proof (cases "rnd (val d1 * val d2) < 2 ^ 1024")
    case True
    from fl_nonneg [OF nonneg True] r show ?thesis
      unfolding eq by simp
  next
    case False
    then have "fl (val d1 * val d2) = PosInf"
      using nonneg r by (simp add: fl_def Let_def infinity_def)
    then show ?thesis
      unfolding eq using False assms(6) by simp
  qed
qed

lemma rnd_neg_numeral [simp]:
  "numeral n < (2::int) ^ 53 \<Longrightarrow> rnd (- numeral n) = - numeral n"
  by (simp add: rnd_minus)

lemma bounded_extreme:
  fixes xs :: "jsnum list"
  assumes "xs \<noteq> []" "\<forall>x \<in> set xs. bounded_coord x"
  shows "\<bar>Min (val ` set xs)\<bar> \<le> 2 ^ 1022" "\<bar>Max (val ` set xs)\<bar> \<le> 2 ^ 1022"
    "Min (val ` set xs) \<le> Max (val ` set xs)"
proof -
  have fin: "finite (val ` set xs)" and ne: "val ` set xs \<noteq> {}"
    using assms(1) by simp_all
  have all: "\<And>v. v \<in> val ` set xs \<Longrightarrow> \<bar>v\<bar> \<le> 2 ^ 1022"
    using assms(2) unfolding bounded_coord_def by (elim imageE) simp
  show "\<bar>Min (val ` set xs)\<bar> \<le> 2 ^ 1022"
    by (rule all [OF Min_in [OF fin ne]])
  show "\<bar>Max (val ` set xs)\<bar> \<le> 2 ^ 1022"
    by (rule all [OF Max_in [OF fin ne]])
  from Min_le [OF fin Max_in [OF fin ne]] show "Min (val ` set xs) \<le> Max (val ` set xs)" .
qed

lemma sliver_sides:
  fixes a b :: real
  defines "a \<equiv> 4 + 3 / 2 ^ 50" and "b \<equiv> 5 - 4 / 2 ^ 50"
  shows "rnd a = a" "rnd b = b" "rnd (a * b) = 20" "a * b < 20" "0 < a" "a \<le> 5" "0 < b" "b \<le> 5"
proof -
  have a: "a = of_int (4 * 2 ^ 50 + 3) * 2 powi (- 50)"
    and b: "b = of_int (5 * 2 ^ 50 - 4) * 2 powi (- 50)"
    unfolding a_def b_def by (simp_all add: power_int_minus field_simps)
  show "rnd a = a"
    unfolding a by (rule rnd_grid) simp_all
  show "rnd b = b"
    unfolding b by (rule rnd_grid) simp_all
  show "a * b < 20" "0 < a" "a \<le> 5" "0 < b" "b \<le> 5"
    unfolding a_def b_def by (simp_all add: field_simps)
  have "rne (a * b / 2 powi (4 - 52)) = 20 * 2 ^ 48"
    unfolding a_def b_def by (rule rne_eqI) (simp add: power_int_minus field_simps)
  then have "rnd (a * b) = of_int (20 * 2 ^ 48) * 2 powi (4 - 52)"
    unfolding a_def b_def by (intro rnd_eqI) (simp_all add: field_simps)
  then show "rnd (a * b) = 20"
    by (simp add: power_int_minus field_simps)
qed

text \<open>
  C8. The fallback hint of a region with a non-empty point set is determined by the
  region's name and geometry. Let the points be those of all rings (of all polygons, for
  a MultiPolygon), with finite coordinates of magnitude at most \<open>2\<^sup>1\<^sup>0\<^sup>2\<^sup>2\<close>, and let
  \<open>south\<close>, \<open>north\<close>, \<open>west\<close>, \<open>east\<close> be the sides of their bounding box. With every
  operation rounded to the nearest double (\<open>rnd\<close>), as in the code, the hint says
  \<^verbatim>\<open>northern\<close> when the vertical centre \<open>(south + north) / 2\<close> is at least 0 and
  \<^verbatim>\<open>southern\<close> otherwise, \<^verbatim>\<open>eastern\<close> when the horizontal centre \<open>(west + east) / 2\<close> is at
  least 0 and \<^verbatim>\<open>western\<close> otherwise, \<^verbatim>\<open>small\<close> when the area
  \<open>(north - south) * (east - west)\<close> is below 20, \<^verbatim>\<open>medium\<close> when it is below 80 and
  \<^verbatim>\<open>large\<close> otherwise, and \<^verbatim>\<open>scattered islands\<close> when the geometry is a MultiPolygon of more
  than one polygon and \<^verbatim>\<open>contiguous land\<close> otherwise. The two texts of the hint are the
  name and these labels (written out below as UTF-16 code units) in the two fixed
  templates. Being a function of the name and the geometry alone, equal inputs give equal
  labels.
\<close>

theorem fallback_hint_of_bounding_box:
  fixes pf :: Platform and props :: GeoProperties and geom :: "jsnum Geometry"
  defines "points \<equiv>
    (case geom of Polygon rings \<Rightarrow> concat rings
     | MultiPolygon polys \<Rightarrow> concat (map concat polys))"
  defines "south \<equiv> Min (val ` snd ` set points)" and "north \<equiv> Max (val ` snd ` set points)"
  defines "west \<equiv> Min (val ` fst ` set points)" and "east \<equiv> Max (val ` fst ` set points)"
  defines "centerLat \<equiv> rnd (rnd (south + north) / 2)"
  defines "centerLon \<equiv> rnd (rnd (west + east) / 2)"
  defines "area \<equiv> rnd (rnd (north - south) * rnd (east - west))"
  defines "latLabel \<equiv>
    (if 0 \<le> centerLat then [0x5317, 0x534A, 0x7403] else [0x5357, 0x534A, 0x7403])"
  defines "lonLabel \<equiv>
    (if 0 \<le> centerLon then [0x6771, 0x534A, 0x7403] else [0x897F, 0x534A, 0x7403])"
  defines "sizeLabel \<equiv>
    (if area < 20 then [0x5C0F, 0x3055, 0x3081]
     else if area < 80 then [0x4E2D, 0x898F, 0x6A21] else [0x5E83, 0x3044])"
  defines "shapeLabel \<equiv>
    (case geom of
       MultiPolygon polys \<Rightarrow>
         if 1 < length polys then [0x5CF6, 0x304C, 0x70B9, 0x5728, 0x3059, 0x308B, 0x56FD]
         else [0x3072, 0x3068, 0x7D9A, 0x304D, 0x306E, 0x9678, 0x5730, 0x3092, 0x6301, 0x3064,
               0x56FD]
     | Polygon rings \<Rightarrow>
         [0x3072, 0x3068, 0x7D9A, 0x304D, 0x306E, 0x9678, 0x5730, 0x3092, 0x6301, 0x3064,
          0x56FD])"
  defines "nm \<equiv> getJapaneseName pf props"
  assumes nonempty: "points \<noteq> []"
    and bounded: "\<forall>p \<in> set points. bounded_coord (fst p) \<and> bounded_coord (snd p)"
  shows "buildFallbackHintD pf \<lparr>geometry = geom, properties = props\<rparr> =
           \<lparr>main_hint =
              nm @ [0x306F] @ latLabel @ [0x30FB] @ lonLabel
                @ [0x306B, 0x4F4D, 0x7F6E, 0x3057, 0x3001] @ shapeLabel @ [0x3067, 0x3001]
                @ sizeLabel @ [0x306A, 0x56FD, 0x3067, 0x3059, 0x3002],
            summary =
              nm @ [0x20, 0x2F, 0x20] @ latLabel @ [0x30FB] @ lonLabel @ [0x20, 0x2F, 0x20]
                @ sizeLabel\<rparr>"
proof -
  have pts: "extractPoints geom = points"
    unfolding points_def by (cases geom) simp_all
  define e where "e = fold extent_stepD points
      \<lparr>minLat = PosInf, maxLat = NegInf, minLon = PosInf, maxLon = NegInf\<rparr>"
  have fin: "\<forall>p \<in> set points. finite_num (fst p) \<and> finite_num (snd p)"
    using bounded unfolding bounded_coord_def by blast
  note ext = extentD_of_points [OF nonempty fin, folded e_def south_def north_def west_def east_def]
  have lats: "map snd points \<noteq> []" "\<forall>x \<in> set (map snd points). bounded_coord x"
    and lons: "map fst points \<noteq> []" "\<forall>x \<in> set (map fst points). bounded_coord x"
    using nonempty bounded by simp_all
  have img: "val ` set (map snd points) = val ` snd ` set points"
    "val ` set (map fst points) = val ` fst ` set points"
    by simp_all
  note blat = bounded_extreme [OF lats, unfolded img, folded south_def north_def]
  note blon = bounded_extreme [OF lons, unfolded img, folded west_def east_def]
  have b: "bounded_coord (minLat e)" "bounded_coord (maxLat e)"
    "bounded_coord (minLon e)" "bounded_coord (maxLon e)"
    using ext blat(1,2) blon(1,2) unfolding bounded_coord_def by simp_all
  have le: "val (minLat e) \<le> val (maxLat e)" "val (minLon e) \<le> val (maxLon e)"
    using ext blat(3) blon(3) by simp_all
  have c1: "jge (fdiv (fadd (minLat e) (maxLat e)) (Fin 2)) (Fin 0) = (0 \<le> centerLat)"
    using center_label [of "minLat e" "maxLat e"] ext(1,2) unfolding centerLat_def by simp
  have c2: "jge (fdiv (fadd (minLon e) (maxLon e)) (Fin 2)) (Fin 0) = (0 \<le> centerLon)"
    using center_label [of "minLon e" "maxLon e"] ext(3,4) unfolding centerLon_def by simp
  note d1 = extent_difference [OF b(1,2) le(1)]
  note d2 = extent_difference [OF b(3,4) le(2)]
  have prod: "val (fsub (maxLat e) (minLat e)) * val (fsub (maxLon e) (minLon e))
      = rnd (north - south) * rnd (east - west)"
    using d1 d2 ext by simp
  have sz: "jlt (Math_abs (fmul (fsub (maxLat e) (minLat e)) (fsub (maxLon e) (minLon e))))
               (Fin t) = (area < t)" if "0 < t" "t < 2 ^ 1024" for t
    using size_label [of "fsub (maxLat e) (minLat e)" "fsub (maxLon e) (minLon e)" t] d1 d2 that
    unfolding area_def prod by simp
  have s20: "jlt (Math_abs (fmul (fsub (maxLat e) (minLat e)) (fsub (maxLon e) (minLon e))))
               (Fin 20) = (area < 20)"
    by (rule sz) simp_all
  have s80: "jlt (Math_abs (fmul (fsub (maxLat e) (minLat e)) (fsub (maxLon e) (minLon e))))
               (Fin 80) = (area < 80)"
    by (rule sz) simp_all
  show ?thesis
    using nonempty
    by (simp add: buildFallbackHintD_def pts Let_def e_def [symmetric] c1 c2 s20 s80
        mainHintText_def summaryText_def latNorth_def latSouth_def lonEast_def lonWest_def
        sizeSmall_def sizeMedium_def sizeLarge_def shapeFragmented_def shapeContiguous_def
        ascii_def latLabel_def lonLabel_def sizeLabel_def shapeLabel_def nm_def
        split: Geometry.splits)
qed

theorem fallback_hint_of_bounding_box_witness:
  "extractPoints (geometry archipelago) \<noteq> []
   \<and> list_all (\<lambda>p. bounded_coord (fst p) \<and> bounded_coord (snd p))
        (extractPoints (geometry archipelago))
   \<and> buildFallbackHintD noIntl archipelago =
       \<lparr>main_hint =
          ascii ''Islandia''
            @ [0x306F, 0x5357, 0x534A, 0x7403, 0x30FB, 0x897F, 0x534A, 0x7403,
               0x306B, 0x4F4D, 0x7F6E, 0x3057, 0x3001,
               0x5CF6, 0x304C, 0x70B9, 0x5728, 0x3059, 0x308B, 0x56FD, 0x3067, 0x3001,
               0x4E2D, 0x898F, 0x6A21, 0x306A, 0x56FD, 0x3067, 0x3059, 0x3002],
        summary =
          ascii ''Islandia''
            @ [0x20, 0x2F, 0x20, 0x5357, 0x534A, 0x7403, 0x30FB, 0x897F, 0x534A, 0x7403,
               0x20, 0x2F, 0x20, 0x4E2D, 0x898F, 0x6A21]\<rparr>
   \<and> (4 + 3 / 2 ^ 50) * (5 - 4 / 2 ^ 50) < (20::real)
   \<and> summary (buildFallbackHintD noIntl sliver) =
       ascii ''Islandia''
         @ [0x20, 0x2F, 0x20, 0x5317, 0x534A, 0x7403, 0x30FB, 0x6771, 0x534A, 0x7403,
            0x20, 0x2F, 0x20, 0x4E2D, 0x898F, 0x6A21]"
proof -
  define geom where "geom = geometry archipelago"
  define props where "props = properties archipelago"
  have geom: "geom =
      MultiPolygon
        [[[(Fin (- 20), Fin (- 10)), (Fin (- 10), Fin (- 10)), (Fin (- 10), Fin (- 6)),
           (Fin (- 20), Fin (- 6)), (Fin (- 20), Fin (- 10))]],
         [[(Fin (- 15), Fin (- 8)), (Fin (- 14), Fin (- 8)), (Fin (- 14), Fin (- 7)),
           (Fin (- 15), Fin (- 8))]]]"
    by (simp add: geom_def archipelago_def)
  have feature: "archipelago = \<lparr>geometry = geom, properties = props\<rparr>"
    by (simp add: geom_def props_def)
  have nm: "getJapaneseName noIntl props = ascii ''Islandia''"
    by (simp add: props_def archipelago_def getJapaneseName_def getEnglishName_def noIntl_def
        js_or_def ascii_def Let_def)
  have pts: "(case geom of Polygon rings \<Rightarrow> concat rings
              | MultiPolygon polys \<Rightarrow> concat (map concat polys)) =
      [(Fin (- 20), Fin (- 10)), (Fin (- 10), Fin (- 10)), (Fin (- 10), Fin (- 6)),
       (Fin (- 20), Fin (- 6)), (Fin (- 20), Fin (- 10)),
       (Fin (- 15), Fin (- 8)), (Fin (- 14), Fin (- 8)), (Fin (- 14), Fin (- 7)),
       (Fin (- 15), Fin (- 8))]"
    by (simp add: geom)
  have ne: "extractPoints (geometry archipelago) \<noteq> []"
    by (simp add: archipelago_def)
  have bd: "list_all (\<lambda>p. bounded_coord (fst p) \<and> bounded_coord (snd p))
      (extractPoints (geometry archipelago))"
    by (simp add: archipelago_def bounded_coord_def)
  have pre: "(case geom of Polygon rings \<Rightarrow> concat rings
              | MultiPolygon polys \<Rightarrow> concat (map concat polys)) \<noteq> []"
    "\<forall>p \<in> set (case geom of Polygon rings \<Rightarrow> concat rings
              | MultiPolygon polys \<Rightarrow> concat (map concat polys)).
       bounded_coord (fst p) \<and> bounded_coord (snd p)"
    unfolding pts by (simp_all add: bounded_coord_def)
  note inst = fallback_hint_of_bounding_box [OF pre, of noIntl props]
  have hint: "buildFallbackHintD noIntl archipelago =
       \<lparr>main_hint =
          ascii ''Islandia''
            @ [0x306F, 0x5357, 0x534A, 0x7403, 0x30FB, 0x897F, 0x534A, 0x7403,
               0x306B, 0x4F4D, 0x7F6E, 0x3057, 0x3001,
               0x5CF6, 0x304C, 0x70B9, 0x5728, 0x3059, 0x308B, 0x56FD, 0x3067, 0x3001,
               0x4E2D, 0x898F, 0x6A21, 0x306A, 0x56FD, 0x3067, 0x3059, 0x3002],
        summary =
          ascii ''Islandia''
            @ [0x20, 0x2F, 0x20, 0x5357, 0x534A, 0x7403, 0x30FB, 0x897F, 0x534A, 0x7403,
               0x20, 0x2F, 0x20, 0x4E2D, 0x898F, 0x6A21]\<rparr>"
    unfolding feature inst nm pts by (simp add: geom)
  define a :: real where "a = 4 + 3 / 2 ^ 50"
  define b :: real where "b = 5 - 4 / 2 ^ 50"
  note ss = sliver_sides [folded a_def b_def]
  define geom' where "geom' = Polygon [[(Fin 0, Fin 0), (Fin b, Fin 0), (Fin b, Fin a),
      (Fin 0, Fin a), (Fin 0, Fin 0)]]"
  have feature': "sliver = \<lparr>geometry = geom', properties = props\<rparr>"
    unfolding sliver_def geom'_def props_def a_def b_def by (simp add: archipelago_def)
  have pts': "(case geom' of Polygon rings \<Rightarrow> concat rings
              | MultiPolygon polys \<Rightarrow> concat (map concat polys)) =
      [(Fin 0, Fin 0), (Fin b, Fin 0), (Fin b, Fin a), (Fin 0, Fin a), (Fin 0, Fin 0)]"
    by (simp add: geom'_def)
  have big: "(5::real) \<le> 2 ^ 1022"
    by simp
  have "\<bar>a\<bar> \<le> 2 ^ 1022" "\<bar>b\<bar> \<le> 2 ^ 1022"
    using ss(5-8) big by linarith+
  then have pre': "(case geom' of Polygon rings \<Rightarrow> concat rings
              | MultiPolygon polys \<Rightarrow> concat (map concat polys)) \<noteq> []"
    "\<forall>p \<in> set (case geom' of Polygon rings \<Rightarrow> concat rings
              | MultiPolygon polys \<Rightarrow> concat (map concat polys)).
       bounded_coord (fst p) \<and> bounded_coord (snd p)"
    unfolding pts' by (simp_all add: bounded_coord_def)
  note inst' = fallback_hint_of_bounding_box [OF pre', of noIntl props]
  have box: "Min (val ` snd ` set [(Fin 0, Fin 0), (Fin b, Fin 0), (Fin b, Fin a),
                 (Fin 0, Fin a), (Fin 0, Fin 0)]) = 0"
    "Max (val ` snd ` set [(Fin 0, Fin 0), (Fin b, Fin 0), (Fin b, Fin a),
                 (Fin 0, Fin a), (Fin 0, Fin 0)]) = a"
    "Min (val ` fst ` set [(Fin 0, Fin 0), (Fin b, Fin 0), (Fin b, Fin a),
                 (Fin 0, Fin a), (Fin 0, Fin 0)]) = 0"
    "Max (val ` fst ` set [(Fin 0, Fin 0), (Fin b, Fin 0), (Fin b, Fin a),
                 (Fin 0, Fin a), (Fin 0, Fin 0)]) = b"
    using ss(5,7) by simp_all
  have half: "0 \<le> rnd (a / 2)" "0 \<le> rnd (b / 2)"
    using ss(5,7) by (simp_all add: rnd_sign(2))
  have hint': "summary (buildFallbackHintD noIntl sliver) =
       ascii ''Islandia''
         @ [0x20, 0x2F, 0x20, 0x5317, 0x534A, 0x7403, 0x30FB, 0x6771, 0x534A, 0x7403,
            0x20, 0x2F, 0x20, 0x4E2D, 0x898F, 0x6A21]"
    unfolding feature' inst' nm pts' box by (simp add: ss(1-3) half)
  have "(4 + 3 / 2 ^ 50) * (5 - 4 / 2 ^ 50) < (20::real)"
    using ss(4) unfolding a_def b_def .
  with ne bd hint hint' show ?thesis
    by blast
qed

end
